theory Spec2Isabelle
  imports Main "HOL-Library.Word" "HOL-Library.Code_Target_Nat"
begin

section \<open>The registration and dispatch engine of torch/library.h\<close>

text \<open>
  A shallow embedding of the classes of \<^verbatim>\<open>compat/torch/library.h\<close>:
  \<^verbatim>\<open>FunctionArgs\<close>, \<^verbatim>\<open>FunctionResult\<close>, \<^verbatim>\<open>CppFunction\<close>,
  \<^verbatim>\<open>ClassRegistry\<close>, \<^verbatim>\<open>class_\<close> and \<^verbatim>\<open>OperatorRegistry\<close>.

  Conventions.
  \<^item> A C++ function that may throw returns \<open>exn + 'a\<close>; \<open>Inl\<close> is the object in flight.
    An object derived from \<^verbatim>\<open>std::exception\<close> is given by its class and its \<^verbatim>\<open>what()\<close>
    text. User code may throw an object of any other type (\<^verbatim>\<open>throw 42;\<close>): every handler
    of the header is \<^verbatim>\<open>catch (const std::exception&)\<close>, so such an object passes each of
    them and leaves the function as it is.
  \<^item> A registered callable is user code: it may have effects. Its effects are a change of
    a world state of an arbitrary type \<open>'s\<close>, passed in and returned. The registries are
    not part of that state: a callable that registers during a call is outside the model.
  \<^item> \<^verbatim>\<open>size_t\<close> values are natural numbers (no arithmetic on them can wrap in the
    functions embedded here, except where noted).
\<close>

subsection \<open>Exceptions\<close>

datatype exn =
    Runtime_error string    \<comment> \<open>\<^verbatim>\<open>std::runtime_error(msg)\<close>\<close>
  | Out_of_range string     \<comment> \<open>\<^verbatim>\<open>std::out_of_range(msg)\<close>\<close>
  | Std_exception string    \<comment> \<open>any other class derived from \<^verbatim>\<open>std::exception\<close>\<close>
  | Thrown_object string    \<comment> \<open>an object of a type not derived from \<^verbatim>\<open>std::exception\<close>\<close>

text \<open>
  \<open>what e\<close> is \<^verbatim>\<open>e.what()\<close> when \<^verbatim>\<open>catch (const std::exception& e)\<close> handles the object,
  and \<open>None\<close> when the handler does not match it.
\<close>

fun what :: "exn \<Rightarrow> string option" where
  "what (Runtime_error m) = Some m"
| "what (Out_of_range m) = Some m"
| "what (Std_exception m) = Some m"
| "what (Thrown_object d) = None"

subsection \<open>Values\<close>

text \<open>
  Modelled from the spec: \<^verbatim>\<open>torch::IValue\<close> is declared in \<^verbatim>\<open>ATen/core/ivalue.h\<close>, which
  is not among the sources. The spec gives it as a closed tagged union over none,
  boolean, integer, float, string and opaque object reference, where none is
  distinguishable from all payload-bearing variants. A float is kept as its 64-bit
  pattern (no arithmetic on it is modelled), an object reference as a handle number.
\<close>

datatype IValue =
    INone
  | IBool bool
  | IInt int
  | IDouble "64 word"
  | IString string
  | IObject nat

fun is_none :: "IValue \<Rightarrow> bool" where
  "is_none INone = True"
| "is_none _ = False"

text \<open>
  The C++ values a caller hands to the variadic constructors, by the branch of
  \<^verbatim>\<open>FunctionArgs::add_arg\<close> their static type selects.
\<close>

datatype cpp_value =
    Char_ptr string        \<comment> \<open>\<^verbatim>\<open>const char*\<close> or a \<^verbatim>\<open>char\<close> array\<close>
  | Arith_bool bool        \<comment> \<open>\<^verbatim>\<open>std::is_arithmetic_v\<close>: \<^verbatim>\<open>bool\<close>\<close>
  | Arith_int int          \<comment> \<open>\<^verbatim>\<open>std::is_arithmetic_v\<close>: an integer type\<close>
  | Arith_double "64 word" \<comment> \<open>\<^verbatim>\<open>std::is_arithmetic_v\<close>: a floating type\<close>
  | Std_string string      \<comment> \<open>\<^verbatim>\<open>std::string\<close>\<close>
  | An_IValue IValue       \<comment> \<open>\<^verbatim>\<open>torch::IValue\<close>\<close>
  | Object_handle nat      \<comment> \<open>anything else: an object handle\<close>

text \<open>
  Modelled from the spec: the converting constructors \<^verbatim>\<open>IValue(x)\<close> of the absent
  \<^verbatim>\<open>ivalue.h\<close>. A Value is constructible from bool, integer, floating-point, string and
  object handle, each giving the variant that bears the payload.
\<close>

fun IValue_of :: "cpp_value \<Rightarrow> IValue" where
  "IValue_of (Char_ptr s) = IString s"
| "IValue_of (Arith_bool b) = IBool b"
| "IValue_of (Arith_int n) = IInt n"
| "IValue_of (Arith_double d) = IDouble d"
| "IValue_of (Std_string s) = IString s"
| "IValue_of (An_IValue v) = v"
| "IValue_of (Object_handle h) = IObject h"

text \<open>
  What the header uses of \<^verbatim>\<open>IValue\<close> and of the static types without defining it, taken
  as parameters: \<^verbatim>\<open>try_convert_to<T>\<close> (\<open>None\<close> when it returns \<^verbatim>\<open>false\<close>),
  \<^verbatim>\<open>type_string()\<close> and \<^verbatim>\<open>typeid(T).name()\<close>. \<open>'ty\<close> is the set of static types \<^verbatim>\<open>T\<close>,
  \<open>'a\<close> the set of converted values.
\<close>

record ('ty, 'a) ivalue_ops =
  try_convert_to :: "'ty \<Rightarrow> IValue \<Rightarrow> 'a option"
  type_string :: "IValue \<Rightarrow> string"
  typeid_name :: "'ty \<Rightarrow> string"

subsection \<open>\<^verbatim>\<open>std::to_string\<close> on \<^verbatim>\<open>size_t\<close>\<close>

definition digit :: "nat \<Rightarrow> char" where
  "digit d = ''0123456789'' ! d"

fun to_string :: "nat \<Rightarrow> string" where
  "to_string n = (if n < 10 then [digit n] else to_string (n div 10) @ [digit (n mod 10)])"

declare to_string.simps [simp del]

subsection \<open>\<^verbatim>\<open>FunctionArgs\<close>\<close>

text \<open>The class holds one member, \<^verbatim>\<open>std::vector<torch::IValue> args_\<close>.\<close>

type_synonym FunctionArgs = "IValue list"

definition from_vector :: "IValue list \<Rightarrow> FunctionArgs" where
  "from_vector args_vec = args_vec"

definition add_arg :: "cpp_value \<Rightarrow> FunctionArgs \<Rightarrow> FunctionArgs" where
  "add_arg arg args = args @ [
     (case arg of
        Char_ptr s \<Rightarrow> IString s
      | Arith_bool b \<Rightarrow> IValue_of (Arith_bool b)
      | Arith_int n \<Rightarrow> IValue_of (Arith_int n)
      | Arith_double d \<Rightarrow> IValue_of (Arith_double d)
      | Std_string s \<Rightarrow> IValue_of (Std_string s)
      | An_IValue v \<Rightarrow> v
      | Object_handle h \<Rightarrow> IValue_of (Object_handle h))]"

text \<open>The variadic constructor: \<^verbatim>\<open>(add_arg(std::forward<Args>(args)), ...)\<close>, left to right.\<close>

definition FunctionArgs_of_pack :: "cpp_value list \<Rightarrow> FunctionArgs" where
  "FunctionArgs_of_pack pack = fold add_arg pack []"

text \<open>
  \<^verbatim>\<open>get<T>(index)\<close>. The three \<^verbatim>\<open>if constexpr\<close> branches differ in the static type of
  the temporary only; each converts with \<^verbatim>\<open>try_convert_to\<close> and falls through to the
  same \<^verbatim>\<open>throw\<close>.
\<close>

definition FunctionArgs_get ::
  "('ty, 'a) ivalue_ops \<Rightarrow> 'ty \<Rightarrow> FunctionArgs \<Rightarrow> nat \<Rightarrow> exn + 'a" where
  "FunctionArgs_get ops T args index =
     (if index \<ge> length args then Inl (Out_of_range ''Argument index out of range'')
      else
        let arg = args ! index in
        case try_convert_to ops T arg of
          Some result \<Rightarrow> Inr result
        | None \<Rightarrow>
            Inl (Runtime_error (''Cannot convert argument '' @ to_string index @ '' from '' @
                   type_string ops arg @ '' to '' @ typeid_name ops T)))"

definition get_value :: "FunctionArgs \<Rightarrow> nat \<Rightarrow> exn + IValue" where
  "get_value args index =
     (if index \<ge> length args then Inl (Out_of_range ''Argument index out of range'')
      else Inr (args ! index))"

text \<open>
  \<^verbatim>\<open>operator[]\<close> is \<^verbatim>\<open>return args_[index]\<close>: \<^verbatim>\<open>std::vector::operator[]\<close>, with no bounds
  check. Out of range the behaviour of the C++ program is undefined, which the model
  keeps as an outcome of its own.
\<close>

datatype 'a raw_read = Defined 'a | Undefined_behaviour

definition subscript :: "FunctionArgs \<Rightarrow> nat \<Rightarrow> IValue raw_read" where
  "subscript args index =
     (if index < length args then Defined (args ! index) else Undefined_behaviour)"

text \<open>
  \<^verbatim>\<open>to_tuple_impl\<close> is \<^verbatim>\<open>std::make_tuple(get<Types>(I)...)\<close>. C++ leaves the order in which
  the arguments of a call are evaluated unspecified, so the order is a parameter: the
  list \<open>order\<close> of the positions \<open>0, ..., n - 1\<close>, in the sequence the compiler
  evaluates them. The first \<^verbatim>\<open>get\<close> that throws ends the evaluation; when none
  throws, the tuple holds the value of each position.
\<close>

fun first_throw :: "(nat \<Rightarrow> exn + 'a) \<Rightarrow> nat list \<Rightarrow> exn option" where
  "first_throw g [] = None"
| "first_throw g (i # is) =
     (case g i of Inl e \<Rightarrow> Some e | Inr _ \<Rightarrow> first_throw g is)"

fun collect :: "(exn + 'a) list \<Rightarrow> exn + 'a list" where
  "collect [] = Inr []"
| "collect (Inl e # rs) = Inl e"
| "collect (Inr x # rs) = (case collect rs of Inl e \<Rightarrow> Inl e | Inr xs \<Rightarrow> Inr (x # xs))"

definition to_tuple_impl ::
  "('ty, 'a) ivalue_ops \<Rightarrow> nat list \<Rightarrow> 'ty list \<Rightarrow> FunctionArgs \<Rightarrow> exn + 'a list" where
  "to_tuple_impl ops order Types args =
     (case first_throw (\<lambda>i. FunctionArgs_get ops (Types ! i) args i) order of
        Some e \<Rightarrow> Inl e
      | None \<Rightarrow>
          collect (map (\<lambda>i. FunctionArgs_get ops (Types ! i) args i) [0..<length Types]))"

definition to_tuple ::
  "('ty, 'a) ivalue_ops \<Rightarrow> nat list \<Rightarrow> 'ty list \<Rightarrow> FunctionArgs \<Rightarrow> exn + 'a list" where
  "to_tuple ops order Types args =
     (if length Types \<noteq> length args then
        Inl (Runtime_error (''Argument count mismatch: expected '' @
               to_string (length Types) @ '', got '' @ to_string (length args)))
      else to_tuple_impl ops order Types args)"

subsection \<open>\<^verbatim>\<open>FunctionResult\<close>\<close>

text \<open>The member \<^verbatim>\<open>value_\<close> (a name cannot end in an underscore here).\<close>

record FunctionResult =
  value' :: IValue

text \<open>The four constructors and the factory.\<close>

definition FunctionResult_default :: FunctionResult where
  "FunctionResult_default = \<lparr>value' = INone\<rparr>"

definition FunctionResult_of_value :: "cpp_value \<Rightarrow> FunctionResult" where
  "FunctionResult_of_value v = \<lparr>value' = IValue_of v\<rparr>"

definition FunctionResult_of_IValue :: "IValue \<Rightarrow> FunctionResult" where
  "FunctionResult_of_IValue v = \<lparr>value' = v\<rparr>"

definition void_result :: FunctionResult where
  "void_result = FunctionResult_default"

definition has_value :: "FunctionResult \<Rightarrow> bool" where
  "has_value r = (\<not> is_none (value' r))"

definition FunctionResult_get ::
  "('ty, 'a) ivalue_ops \<Rightarrow> 'ty \<Rightarrow> FunctionResult \<Rightarrow> exn + 'a" where
  "FunctionResult_get ops T r =
     (if is_none (value' r) then Inl (Runtime_error ''No return value (void function)'')
      else
        case try_convert_to ops T (value' r) of
          Some result \<Rightarrow> Inr result
        | None \<Rightarrow>
            Inl (Runtime_error (''Cannot convert result from '' @ type_string ops (value' r) @
                   '' to '' @ typeid_name ops T)))"

subsection \<open>\<^verbatim>\<open>function_traits\<close> and \<^verbatim>\<open>CppFunction\<close>\<close>

text \<open>
  \<^verbatim>\<open>CallableFunction\<close> is \<^verbatim>\<open>std::function<FunctionResult(const FunctionArgs&)>\<close>; the member
  \<^verbatim>\<open>func_\<close> of a \<^verbatim>\<open>CppFunction\<close> is one of them or empty (\<open>None\<close>, the \<^verbatim>\<open>nullptr\<close> of the
  default constructor).
\<close>

type_synonym 's CallableFunction = "FunctionArgs \<Rightarrow> 's \<Rightarrow> (exn + FunctionResult) \<times> 's"

type_synonym 's CppFunction = "'s CallableFunction option"

text \<open>
  A native function seen through \<^verbatim>\<open>function_traits<R(Args...)>\<close>: its parameter types and
  its body, which returns nothing for \<^verbatim>\<open>R = void\<close>. A member function is seen through
  \<^verbatim>\<open>function_traits<R (C::*)(Args...)>\<close>, its body takes the instance first.
\<close>

record ('ty, 'a, 's) native_function =
  Args :: "'ty list"
  body :: "'a list \<Rightarrow> 's \<Rightarrow> (exn + cpp_value option) \<times> 's"

record ('ty, 'a, 's) member_function =
  method_Args :: "'ty list"
  method_body :: "'a \<Rightarrow> 'a list \<Rightarrow> 's \<Rightarrow> (exn + cpp_value option) \<times> 's"

definition box_result :: "cpp_value option \<Rightarrow> IValue" where
  "box_result r = (case r of None \<Rightarrow> INone | Some result \<Rightarrow> IValue_of result)"

definition call_function_impl ::
  "('ty, 'a) ivalue_ops \<Rightarrow> nat list \<Rightarrow> ('ty, 'a, 's) native_function \<Rightarrow> FunctionArgs \<Rightarrow> 's \<Rightarrow>
     (exn + IValue) \<times> 's" where
  "call_function_impl ops order func args s =
     (case to_tuple_impl ops order (Args func) args of
        Inl e \<Rightarrow> (Inl e, s)
      | Inr args_without_ref \<Rightarrow>
          (case body func args_without_ref s of
             (Inl e, s') \<Rightarrow> (Inl e, s')
           | (Inr result, s') \<Rightarrow> (Inr (box_result result), s')))"

definition call_function ::
  "('ty, 'a) ivalue_ops \<Rightarrow> nat list \<Rightarrow> ('ty, 'a, 's) native_function \<Rightarrow> FunctionArgs \<Rightarrow> 's \<Rightarrow>
     (exn + IValue) \<times> 's" where
  "call_function ops order func args s =
     (if length args \<noteq> length (Args func) then
        (Inl (Runtime_error (''Function expects '' @ to_string (length (Args func)) @
                '' arguments, got '' @ to_string (length args))), s)
      else call_function_impl ops order func args s)"

text \<open>
  \<^verbatim>\<open>call_method_impl\<close> converts position \<open>I + 1\<close> for each parameter \<open>I\<close>, again in an
  order the language leaves open, then calls the member function on the instance.
  In the message of \<^verbatim>\<open>call_method\<close>, \<^verbatim>\<open>args.size() - 1\<close> is \<^verbatim>\<open>size_t\<close> arithmetic.
\<close>

definition call_method_impl ::
  "('ty, 'a) ivalue_ops \<Rightarrow> nat list \<Rightarrow> ('ty, 'a, 's) member_function \<Rightarrow> 'a \<Rightarrow> FunctionArgs \<Rightarrow> 's \<Rightarrow>
     (exn + IValue) \<times> 's" where
  "call_method_impl ops order func inst args s =
     (let g = (\<lambda>i. FunctionArgs_get ops (method_Args func ! i) args (i + 1)) in
      case first_throw g order of
        Some e \<Rightarrow> (Inl e, s)
      | None \<Rightarrow>
          (case collect (map g [0..<length (method_Args func)]) of
             Inl e \<Rightarrow> (Inl e, s)
           | Inr args_without_ref \<Rightarrow>
               (case method_body func inst args_without_ref s of
                  (Inl e, s') \<Rightarrow> (Inl e, s')
                | (Inr result, s') \<Rightarrow> (Inr (box_result result), s'))))"

definition call_method ::
  "('ty, 'a) ivalue_ops \<Rightarrow> nat list \<Rightarrow> ('ty, 'a, 's) member_function \<Rightarrow> 'a \<Rightarrow> FunctionArgs \<Rightarrow> 's \<Rightarrow>
     (exn + IValue) \<times> 's" where
  "call_method ops order func inst args s =
     (if length args \<noteq> length (method_Args func) + 1 then
        (Inl (Runtime_error (''Method expects '' @ to_string (length (method_Args func)) @
                '' arguments (plus this), got '' @
                to_string ((length args + 2 ^ 64 - 1) mod 2 ^ 64))), s)
      else call_method_impl ops order func inst args s)"

definition invoke_function ::
  "('ty, 'a) ivalue_ops \<Rightarrow> nat list \<Rightarrow> ('ty, 'a, 's) native_function \<Rightarrow> FunctionArgs \<Rightarrow> 's \<Rightarrow>
     (exn + IValue) \<times> 's" where
  "invoke_function ops order func args s = call_function ops order func args s"

definition invoke_member_function ::
  "('ty, 'a) ivalue_ops \<Rightarrow> nat list \<Rightarrow> ('ty, 'a, 's) member_function \<Rightarrow> 'a \<Rightarrow> FunctionArgs \<Rightarrow> 's \<Rightarrow>
     (exn + IValue) \<times> 's" where
  "invoke_member_function ops order func inst args s = call_method ops order func inst args s"

text \<open>
  The closure each \<^verbatim>\<open>CppFunction\<close> constructor stores: run the callable, wrap its
  \<^verbatim>\<open>IValue\<close> in a \<^verbatim>\<open>FunctionResult\<close>, and rethrow a \<^verbatim>\<open>std::exception\<close> it throws as a
  \<^verbatim>\<open>std::runtime_error\<close> with the constructor's prefix before \<^verbatim>\<open>e.what()\<close>. Any other
  object it throws is not caught.
\<close>

definition wrap_callable ::
  "string \<Rightarrow> (FunctionArgs \<Rightarrow> 's \<Rightarrow> (exn + IValue) \<times> 's) \<Rightarrow> 's CallableFunction" where
  "wrap_callable prefix f = (\<lambda>args s.
     case f args s of
       (Inr result, s') \<Rightarrow> (Inr (FunctionResult_of_IValue result), s')
     | (Inl e, s') \<Rightarrow>
         (case what e of
            Some msg \<Rightarrow> (Inl (Runtime_error (prefix @ msg)), s')
          | None \<Rightarrow> (Inl e, s')))"

definition CppFunction_default :: "'s CppFunction" where
  "CppFunction_default = None"

definition CppFunction_of_std_function ::
  "(FunctionArgs \<Rightarrow> 's \<Rightarrow> (exn + IValue) \<times> 's) \<Rightarrow> 's CppFunction" where
  "CppFunction_of_std_function func = Some (wrap_callable ''Constructor failed: '' func)"

definition CppFunction_of_function_pointer ::
  "('ty, 'a) ivalue_ops \<Rightarrow> nat list \<Rightarrow> ('ty, 'a, 's) native_function \<Rightarrow> 's CppFunction" where
  "CppFunction_of_function_pointer ops order f =
     Some (wrap_callable ''Function call failed: '' (invoke_function ops order f))"

definition CppFunction_of_lambda ::
  "(FunctionArgs \<Rightarrow> 's \<Rightarrow> (exn + IValue) \<times> 's) \<Rightarrow> 's CppFunction" where
  "CppFunction_of_lambda f = Some (wrap_callable ''Lambda execution failed: '' f)"

definition call_with_args :: "'s CppFunction \<Rightarrow> FunctionArgs \<Rightarrow> 's \<Rightarrow> (exn + FunctionResult) \<times> 's" where
  "call_with_args func args s =
     (case func of
        None \<Rightarrow> (Inl (Runtime_error ''CppFunction is not initialized''), s)
      | Some f \<Rightarrow> f args s)"

text \<open>\<^verbatim>\<open>call()\<close> and \<^verbatim>\<open>call(Args&&...)\<close>: the pack becomes a \<^verbatim>\<open>FunctionArgs\<close>.\<close>

definition call :: "'s CppFunction \<Rightarrow> cpp_value list \<Rightarrow> 's \<Rightarrow> (exn + FunctionResult) \<times> 's" where
  "call func pack s =
     (case func of
        None \<Rightarrow> (Inl (Runtime_error ''CppFunction is not initialized''), s)
      | Some f \<Rightarrow> f (FunctionArgs_of_pack pack) s)"

definition valid :: "'s CppFunction \<Rightarrow> bool" where
  "valid func = (func \<noteq> None)"

subsection \<open>\<^verbatim>\<open>ClassRegistry\<close>\<close>

record 's ClassRegistration =
  namespace_name :: string
  class_name :: string
  qualified_name :: string
  constructors :: "'s CppFunction list"
  methods :: "string \<rightharpoonup> 's CppFunction"
  static_methods :: "string \<rightharpoonup> 's CppFunction"

definition ClassRegistration_new :: "string \<Rightarrow> string \<Rightarrow> 's ClassRegistration" where
  "ClassRegistration_new ns name =
     \<lparr>namespace_name = ns, class_name = name, qualified_name = ns @ ''::'' @ name,
      constructors = [], methods = Map.empty, static_methods = Map.empty\<rparr>"

text \<open>
  The registry is its member \<^verbatim>\<open>classes_\<close>, an \<^verbatim>\<open>unordered_map\<close> from qualified names.
  The parameters \<^verbatim>\<open>qualified_name\<close> and \<^verbatim>\<open>method_name\<close> of its member functions are
  written \<open>qn\<close> and \<open>mn\<close>, the first being the name of a field above.
\<close>

type_synonym 's ClassRegistry = "string \<rightharpoonup> 's ClassRegistration"

definition register_class :: "string \<Rightarrow> string \<Rightarrow> 's ClassRegistry \<Rightarrow> 's ClassRegistry" where
  "register_class ns cn classes =
     (let qn = ns @ ''::'' @ cn in
      classes(qn \<mapsto> ClassRegistration_new ns cn))"

definition register_constructor ::
  "string \<Rightarrow> 's CppFunction \<Rightarrow> 's ClassRegistry \<Rightarrow> exn + 's ClassRegistry" where
  "register_constructor qn func classes =
     (case classes qn of
        None \<Rightarrow> Inl (Runtime_error (''Class '' @ qn @ '' not found''))
      | Some reg \<Rightarrow>
          Inr (classes(qn \<mapsto> reg\<lparr>constructors := constructors reg @ [func]\<rparr>)))"

definition register_method ::
  "string \<Rightarrow> string \<Rightarrow> 's CppFunction \<Rightarrow> 's ClassRegistry \<Rightarrow> exn + 's ClassRegistry" where
  "register_method qn mn func classes =
     (case classes qn of
        None \<Rightarrow> Inl (Runtime_error (''Class '' @ qn @ '' not found''))
      | Some reg \<Rightarrow>
          Inr (classes(qn \<mapsto> reg\<lparr>methods := (methods reg)(mn \<mapsto> func)\<rparr>)))"

definition register_static_method ::
  "string \<Rightarrow> string \<Rightarrow> 's CppFunction \<Rightarrow> 's ClassRegistry \<Rightarrow> exn + 's ClassRegistry" where
  "register_static_method qn mn func classes =
     (case classes qn of
        None \<Rightarrow> Inl (Runtime_error (''Class '' @ qn @ '' not found''))
      | Some reg \<Rightarrow>
          Inr (classes(qn \<mapsto>
                 reg\<lparr>static_methods := (static_methods reg)(mn \<mapsto> func)\<rparr>)))"

definition has_class :: "'s ClassRegistry \<Rightarrow> string \<Rightarrow> bool" where
  "has_class classes qn = (classes qn \<noteq> None)"

definition has_method :: "'s ClassRegistry \<Rightarrow> string \<Rightarrow> string \<Rightarrow> bool" where
  "has_method classes qn mn =
     (case classes qn of
        None \<Rightarrow> False
      | Some reg \<Rightarrow> methods reg mn \<noteq> None)"

text \<open>
  \<^verbatim>\<open>call_method_with_args(qualified_name, method_name, args)\<close>: the instance is already the
  first argument. Its \<^verbatim>\<open>catch\<close> block is \<^verbatim>\<open>throw;\<close>, so what the method throws goes on
  unchanged.
\<close>

definition call_method_with_args ::
  "'s ClassRegistry \<Rightarrow> string \<Rightarrow> string \<Rightarrow> FunctionArgs \<Rightarrow> 's \<Rightarrow> (exn + FunctionResult) \<times> 's" where
  "call_method_with_args classes qn mn args s =
     (case classes qn of
        None \<Rightarrow> (Inl (Runtime_error (''Class '' @ qn @ '' not found!'')), s)
      | Some class_reg \<Rightarrow>
          (case methods class_reg mn of
             None \<Rightarrow>
               (Inl (Runtime_error (''Method '' @ mn @ '' not found in '' @
                       qn @ ''!'')), s)
           | Some method \<Rightarrow> call_with_args method args s))"

text \<open>
  The loop of \<^verbatim>\<open>call_constructor_with_args\<close>, from index \<open>i\<close>: a constructor that returns
  ends it, one that throws a \<^verbatim>\<open>std::exception\<close> is skipped (the \<^verbatim>\<open>catch\<close> block is empty),
  one that throws any other object ends the function with that object, and after the
  last one the function throws.
\<close>

function constructor_loop ::
  "'s CppFunction list \<Rightarrow> string \<Rightarrow> FunctionArgs \<Rightarrow> nat \<Rightarrow> 's \<Rightarrow> (exn + FunctionResult) \<times> 's" where
  "constructor_loop ctors qn args i s =
     (if i < length ctors then
        (let r = call_with_args (ctors ! i) args s in
         case fst r of
           Inr result \<Rightarrow> (Inr result, snd r)
         | Inl e \<Rightarrow>
             (case what e of
                Some msg \<Rightarrow> constructor_loop ctors qn args (i + 1) (snd r)
              | None \<Rightarrow> (Inl e, snd r)))
      else (Inl (Runtime_error (''No suitable constructor found for '' @ qn)), s))"
  by pat_completeness auto
termination
  by (relation "measure (\<lambda>(ctors, qn, args, i, s). length ctors - i)") auto

declare constructor_loop.simps [simp del]

definition call_constructor_with_args ::
  "'s ClassRegistry \<Rightarrow> string \<Rightarrow> FunctionArgs \<Rightarrow> 's \<Rightarrow> (exn + FunctionResult) \<times> 's" where
  "call_constructor_with_args classes qn args s =
     (case classes qn of
        None \<Rightarrow> (Inl (Runtime_error (''Class '' @ qn @ '' not found!'')), s)
      | Some class_reg \<Rightarrow>
          if constructors class_reg = [] then
            (Inl (Runtime_error (''No constructor registered for '' @ qn)), s)
          else constructor_loop (constructors class_reg) qn args 0 s)"

definition call_static_method_with_args ::
  "'s ClassRegistry \<Rightarrow> string \<Rightarrow> string \<Rightarrow> FunctionArgs \<Rightarrow> 's \<Rightarrow> (exn + FunctionResult) \<times> 's" where
  "call_static_method_with_args classes qn mn args s =
     (case classes qn of
        None \<Rightarrow> (Inl (Runtime_error (''Class '' @ qn @ '' not found!'')), s)
      | Some class_reg \<Rightarrow>
          (case static_methods class_reg mn of
             None \<Rightarrow>
               (Inl (Runtime_error (''Static method '' @ mn @ '' not found in '' @
                       qn @ ''!'')), s)
           | Some method \<Rightarrow> call_with_args method args s))"

text \<open>
  The overload that takes the instance apart from the arguments builds
  \<^verbatim>\<open>method_args\<close>: the instance, then each \<^verbatim>\<open>args.get_value(i)\<close>.
\<close>

definition call_method_with_args_instance ::
  "'s ClassRegistry \<Rightarrow> string \<Rightarrow> string \<Rightarrow> IValue \<Rightarrow> FunctionArgs \<Rightarrow> 's \<Rightarrow>
     (exn + FunctionResult) \<times> 's" where
  "call_method_with_args_instance classes qn mn inst args s =
     (case classes qn of
        None \<Rightarrow> (Inl (Runtime_error (''Class '' @ qn @ '' not found!'')), s)
      | Some class_reg \<Rightarrow>
          (case methods class_reg mn of
             None \<Rightarrow>
               (Inl (Runtime_error (''Instance method '' @ mn @ '' not found in '' @
                       qn @ ''!'')), s)
           | Some method \<Rightarrow>
               (let method_args = fold (\<lambda>v. add_arg (An_IValue v)) args (add_arg (An_IValue inst) [])
                in call_with_args method method_args s)))"

subsection \<open>The builder \<^verbatim>\<open>class_<CurClass>\<close>\<close>

text \<open>
  The builder keeps three strings and works on the one \<^verbatim>\<open>ClassRegistry::instance()\<close>,
  which every function here takes and returns. What the template parameter
  \<^verbatim>\<open>CurClass\<close> contributes is a parameter: the static type
  \<^verbatim>\<open>torch::intrusive_ptr<CurClass>\<close> and \<^verbatim>\<open>torch::make_intrusive<CurClass>(args...)\<close>, which
  runs the class's own constructor for the given parameter types and yields the handle
  of the new instance.
\<close>

record class_builder =
  builder_namespace_name :: string
  builder_class_name :: string
  builder_qualified_name :: string

record ('ty, 'a, 's) CurClass =
  intrusive_ptr_type :: "'ty"
  make_intrusive :: "'ty list \<Rightarrow> 'a list \<Rightarrow> 's \<Rightarrow> (exn + nat) \<times> 's"

definition class_new ::
  "string \<Rightarrow> string \<Rightarrow> 's ClassRegistry \<Rightarrow> class_builder \<times> 's ClassRegistry" where
  "class_new namespaceName className classes =
     (\<lparr>builder_namespace_name = namespaceName, builder_class_name = className,
       builder_qualified_name = namespaceName @ ''::'' @ className\<rparr>,
      register_class namespaceName className classes)"

definition constructor_func ::
  "('ty, 'a) ivalue_ops \<Rightarrow> nat list \<Rightarrow> ('ty, 'a, 's) CurClass \<Rightarrow> 'ty list \<Rightarrow>
     FunctionArgs \<Rightarrow> 's \<Rightarrow> (exn + IValue) \<times> 's" where
  "constructor_func ops order cur Types args s =
     (if length Types = 0 then
        (if length args \<noteq> 0 then
           (Inl (Runtime_error (''Default constructor expects 0 arguments, got '' @
                   to_string (length args))), s)
         else
           (case make_intrusive cur [] [] s of
              (Inl e, s') \<Rightarrow> (Inl e, s')
            | (Inr inst, s') \<Rightarrow> (Inr (IValue_of (Object_handle inst)), s')))
      else
        (if length args \<noteq> length Types then
           (Inl (Runtime_error (''Constructor argument count mismatch: expected '' @
                   to_string (length Types) @ '', got '' @ to_string (length args))), s)
         else
           (case to_tuple ops order Types args of
              Inl e \<Rightarrow> (Inl e, s)
            | Inr tuple_args \<Rightarrow>
                (case make_intrusive cur Types tuple_args s of
                   (Inl e, s') \<Rightarrow> (Inl e, s')
                 | (Inr inst, s') \<Rightarrow> (Inr (IValue_of (Object_handle inst)), s')))))"

definition def_init ::
  "('ty, 'a) ivalue_ops \<Rightarrow> nat list \<Rightarrow> ('ty, 'a, 's) CurClass \<Rightarrow> 'ty list \<Rightarrow>
     class_builder \<Rightarrow> 's ClassRegistry \<Rightarrow> exn + 's ClassRegistry" where
  "def_init ops order cur Types b classes =
     register_constructor (builder_qualified_name b)
       (CppFunction_of_lambda (constructor_func ops order cur Types)) classes"

text \<open>
  \<^verbatim>\<open>def(name, f)\<close> branches at compile time on
  \<^verbatim>\<open>std::is_member_function_pointer_v<std::decay_t<Func>>\<close>: the argument is a member
  function pointer or any other callable.
\<close>

datatype ('ty, 'a, 's) Func =
    Member_function_pointer "('ty, 'a, 's) member_function"
  | Generic_callable "FunctionArgs \<Rightarrow> 's \<Rightarrow> (exn + IValue) \<times> 's"

definition method_func ::
  "('ty, 'a) ivalue_ops \<Rightarrow> nat list \<Rightarrow> ('ty, 'a, 's) CurClass \<Rightarrow> ('ty, 'a, 's) member_function \<Rightarrow>
     FunctionArgs \<Rightarrow> 's \<Rightarrow> (exn + IValue) \<times> 's" where
  "method_func ops order cur f args s =
     (if length args < 1 then
        (Inl (Runtime_error ''Instance method requires at least 1 argument (this pointer)''), s)
      else
        (case FunctionArgs_get ops (intrusive_ptr_type cur) args 0 of
           Inl e \<Rightarrow> (Inl e, s)
         | Inr inst \<Rightarrow> invoke_member_function ops order f inst args s))"

definition def_method ::
  "('ty, 'a) ivalue_ops \<Rightarrow> nat list \<Rightarrow> ('ty, 'a, 's) CurClass \<Rightarrow> string \<Rightarrow> ('ty, 'a, 's) Func \<Rightarrow>
     class_builder \<Rightarrow> 's ClassRegistry \<Rightarrow> exn + 's ClassRegistry" where
  "def_method ops order cur name f b classes =
     (case f of
        Member_function_pointer mf \<Rightarrow>
          register_method (builder_qualified_name b) name
            (CppFunction_of_lambda (method_func ops order cur mf)) classes
      | Generic_callable g \<Rightarrow> Inr classes)"

definition def_static ::
  "string \<Rightarrow> 's CppFunction \<Rightarrow> class_builder \<Rightarrow> 's ClassRegistry \<Rightarrow> exn + 's ClassRegistry" where
  "def_static name f b classes = register_static_method (builder_qualified_name b) name f classes"

subsection \<open>\<^verbatim>\<open>OperatorRegistry\<close>\<close>

datatype DispatchKey = Undefined | CPU | CUDA

fun dispatch_key_to_string :: "DispatchKey \<Rightarrow> string" where
  "dispatch_key_to_string CPU = ''CPU''"
| "dispatch_key_to_string CUDA = ''CUDA''"
| "dispatch_key_to_string _ = ''Undefined''"

record 's OperatorRegistration =
  op_qualified_name :: string
  schema :: string
  implementations :: "DispatchKey \<rightharpoonup> 's CppFunction"

definition OperatorRegistration_new :: "string \<Rightarrow> string \<Rightarrow> 's OperatorRegistration" where
  "OperatorRegistration_new name schema_str =
     \<lparr>op_qualified_name = name, schema = schema_str, implementations = Map.empty\<rparr>"

text \<open>The registry is its member \<^verbatim>\<open>operators_\<close>.\<close>

type_synonym 's OperatorRegistry = "string \<rightharpoonup> 's OperatorRegistration"

definition get_or_create_operator :: "string \<Rightarrow> 's OperatorRegistry \<Rightarrow> 's OperatorRegistry" where
  "get_or_create_operator qn operators =
     (case operators qn of
        None \<Rightarrow> operators(qn \<mapsto> OperatorRegistration_new qn [])
      | Some op \<Rightarrow> operators)"

definition register_schema :: "string \<Rightarrow> string \<Rightarrow> 's OperatorRegistry \<Rightarrow> 's OperatorRegistry" where
  "register_schema qn schema_str operators =
     (let operators' = get_or_create_operator qn operators in
      case operators' qn of
        None \<Rightarrow> operators'
      | Some op \<Rightarrow> operators'(qn \<mapsto> op\<lparr>schema := schema_str\<rparr>))"

definition register_implementation ::
  "string \<Rightarrow> DispatchKey \<Rightarrow> 's CppFunction \<Rightarrow> 's OperatorRegistry \<Rightarrow> 's OperatorRegistry" where
  "register_implementation qn key func operators =
     (let operators' = get_or_create_operator qn operators in
      case operators' qn of
        None \<Rightarrow> operators'
      | Some op \<Rightarrow> operators'(qn \<mapsto> op\<lparr>implementations := (implementations op)(key \<mapsto> func)\<rparr>))"

definition find_operator :: "'s OperatorRegistry \<Rightarrow> string \<Rightarrow> 's OperatorRegistration option" where
  "find_operator operators qn = operators qn"

text \<open>
  \<^verbatim>\<open>execute_operator\<close>: the probe without arguments. Each \<^verbatim>\<open>catch\<close> block returns
  \<^verbatim>\<open>false\<close>; an object that is no \<^verbatim>\<open>std::exception\<close> leaves the function.
\<close>

definition execute_operator ::
  "'s OperatorRegistry \<Rightarrow> string \<Rightarrow> DispatchKey \<Rightarrow> 's \<Rightarrow> (exn + bool) \<times> 's" where
  "execute_operator operators qn key s =
     (case find_operator operators qn of
        None \<Rightarrow> (Inr False, s)
      | Some op \<Rightarrow>
          (case implementations op key of
             Some impl \<Rightarrow>
               (case call impl [] s of
                  (Inr result, s') \<Rightarrow> (Inr True, s')
                | (Inl e, s') \<Rightarrow>
                    (case what e of
                       Some msg \<Rightarrow> (Inr False, s')
                     | None \<Rightarrow> (Inl e, s')))
           | None \<Rightarrow>
               (if key \<noteq> CPU then
                  (case implementations op CPU of
                     Some cpu \<Rightarrow>
                       (case call cpu [] s of
                          (Inr result, s') \<Rightarrow> (Inr True, s')
                        | (Inl e, s') \<Rightarrow>
                            (case what e of
                               Some msg \<Rightarrow> (Inr False, s')
                             | None \<Rightarrow> (Inl e, s')))
                   | None \<Rightarrow> (Inr False, s))
                else (Inr False, s))))"

text \<open>
  \<^verbatim>\<open>execute_operator_with_args\<close>: each \<^verbatim>\<open>catch\<close> block throws a new
  \<^verbatim>\<open>std::runtime_error\<close>, a fixed text before \<^verbatim>\<open>e.what()\<close>; an object that is no
  \<^verbatim>\<open>std::exception\<close> is not caught.
\<close>

definition execute_operator_with_args ::
  "'s OperatorRegistry \<Rightarrow> string \<Rightarrow> DispatchKey \<Rightarrow> cpp_value list \<Rightarrow> 's \<Rightarrow>
     (exn + FunctionResult) \<times> 's" where
  "execute_operator_with_args operators qn key pack s =
     (case find_operator operators qn of
        None \<Rightarrow> (Inl (Runtime_error (''Operator '' @ qn @ '' not found!'')), s)
      | Some op \<Rightarrow>
          (case implementations op key of
             Some impl \<Rightarrow>
               (case call impl pack s of
                  (Inr result, s') \<Rightarrow> (Inr result, s')
                | (Inl e, s') \<Rightarrow>
                    (case what e of
                       Some msg \<Rightarrow>
                         (Inl (Runtime_error (''Error executing operator: '' @ msg)), s')
                     | None \<Rightarrow> (Inl e, s')))
           | None \<Rightarrow>
               (let no_implementation =
                      (Inl (Runtime_error (''No implementation found for '' @ qn @ '' with '' @
                              dispatch_key_to_string key)), s)
                in
                if key \<noteq> CPU then
                  (case implementations op CPU of
                     Some cpu \<Rightarrow>
                       (case call cpu pack s of
                          (Inr result, s') \<Rightarrow> (Inr result, s')
                        | (Inl e, s') \<Rightarrow>
                            (case what e of
                               Some msg \<Rightarrow>
                                 (Inl (Runtime_error
                                    (''Error executing operator (CPU fallback): '' @ msg)), s')
                             | None \<Rightarrow> (Inl e, s')))
                   | None \<Rightarrow> no_implementation)
                else no_implementation)))"

subsection \<open>\<^verbatim>\<open>Library\<close>\<close>

datatype Kind = DEF | IMPL | FRAGMENT

text \<open>The members \<^verbatim>\<open>kind_\<close>, \<^verbatim>\<open>ns_\<close> and \<^verbatim>\<open>dispatch_key_\<close>.\<close>

record Library =
  kind' :: Kind
  ns' :: string
  dispatch_key' :: "DispatchKey option"

definition extract_op_name :: "string \<Rightarrow> string" where
  "extract_op_name name_or_schema = takeWhile (\<lambda>c. c \<noteq> CHR ''('') name_or_schema"

definition def_schema :: "Library \<Rightarrow> string \<Rightarrow> 's OperatorRegistry \<Rightarrow> 's OperatorRegistry" where
  "def_schema lib schema_str operators =
     (if kind' lib = IMPL then operators
      else register_schema (ns' lib @ ''::'' @ extract_op_name schema_str) schema_str operators)"

definition def_impl ::
  "Library \<Rightarrow> string \<Rightarrow> 's CppFunction \<Rightarrow> 's OperatorRegistry \<Rightarrow> 's OperatorRegistry" where
  "def_impl lib name_or_schema f operators =
     (let qn = ns' lib @ ''::'' @ extract_op_name name_or_schema;
          operators' = (if CHR ''('' \<in> set name_or_schema
                        then register_schema qn name_or_schema operators else operators)
      in register_implementation qn (case dispatch_key' lib of None \<Rightarrow> CPU | Some k \<Rightarrow> k) f
           operators')"

definition impl ::
  "Library \<Rightarrow> string \<Rightarrow> 's CppFunction \<Rightarrow> 's OperatorRegistry \<Rightarrow> 's OperatorRegistry" where
  "impl lib op_name f operators =
     register_implementation (ns' lib @ ''::'' @ op_name)
       (case dispatch_key' lib of None \<Rightarrow> CPU | Some k \<Rightarrow> k) f operators"

subsection \<open>An instance of the parameters\<close>

text \<open>
  The concrete evaluations below need some static types, some \<^verbatim>\<open>try_convert_to\<close> and
  some callables. This instance has five static types, a conversion that succeeds on
  the matching variant only, and callables that write their label to a log (the world
  state is the log) and then return or throw.
\<close>

datatype cpp_type = T_bool | T_int | T_double | T_string | T_object

definition example_convert :: "cpp_type \<Rightarrow> IValue \<Rightarrow> cpp_value option" where
  "example_convert T v =
     (case T of
        T_bool \<Rightarrow> (case v of IBool b \<Rightarrow> Some (Arith_bool b) | _ \<Rightarrow> None)
      | T_int \<Rightarrow> (case v of IInt n \<Rightarrow> Some (Arith_int n) | _ \<Rightarrow> None)
      | T_double \<Rightarrow> (case v of IDouble d \<Rightarrow> Some (Arith_double d) | _ \<Rightarrow> None)
      | T_string \<Rightarrow> (case v of IString s \<Rightarrow> Some (Std_string s) | _ \<Rightarrow> None)
      | T_object \<Rightarrow> (case v of IObject h \<Rightarrow> Some (Object_handle h) | _ \<Rightarrow> None))"

fun example_type_string :: "IValue \<Rightarrow> string" where
  "example_type_string INone = ''None''"
| "example_type_string (IBool b) = ''Bool''"
| "example_type_string (IInt n) = ''Int''"
| "example_type_string (IDouble d) = ''Double''"
| "example_type_string (IString s) = ''String''"
| "example_type_string (IObject h) = ''CustomClass''"

fun example_typeid_name :: "cpp_type \<Rightarrow> string" where
  "example_typeid_name T_bool = ''b''"
| "example_typeid_name T_int = ''l''"
| "example_typeid_name T_double = ''d''"
| "example_typeid_name T_string = ''Ss''"
| "example_typeid_name T_object = ''P6Object''"

definition example_ops :: "(cpp_type, cpp_value) ivalue_ops" where
  "example_ops = \<lparr>try_convert_to = example_convert, type_string = example_type_string,
     typeid_name = example_typeid_name\<rparr>"

definition returns :: "string \<Rightarrow> IValue \<Rightarrow> FunctionArgs \<Rightarrow> string list \<Rightarrow> (exn + IValue) \<times> string list" where
  "returns label v = (\<lambda>args log. (Inr v, log @ [label]))"

definition throws :: "string \<Rightarrow> string \<Rightarrow> FunctionArgs \<Rightarrow> string list \<Rightarrow> (exn + IValue) \<times> string list" where
  "throws label msg = (\<lambda>args log. (Inl (Std_exception msg), log @ [label]))"

definition throws_object ::
  "string \<Rightarrow> string \<Rightarrow> FunctionArgs \<Rightarrow> string list \<Rightarrow> (exn + IValue) \<times> string list" where
  "throws_object label obj = (\<lambda>args log. (Inl (Thrown_object obj), log @ [label]))"

subsection \<open>Vocabulary of the statements\<close>

text \<open>
  \<open>state_after_tries ctors args s\<close> is the world state after each callable of \<open>ctors\<close> has
  been called once on \<open>args\<close>, one after the other, starting in \<open>s\<close>.
  \<open>throws_std_exception r\<close> says of the outcome \<open>r\<close> of a call that it is a thrown object
  derived from \<^verbatim>\<open>std::exception\<close>.
  \<open>try_in_order\<close> is the loop of \<^verbatim>\<open>call_constructor_with_args\<close> as a recursion over the
  list of constructors still to try; it serves the proofs only.
\<close>

definition throws_std_exception :: "(exn + 'a) \<times> 's \<Rightarrow> bool" where
  "throws_std_exception r = (case fst r of Inl e \<Rightarrow> what e \<noteq> None | Inr x \<Rightarrow> False)"

definition state_after_tries :: "'s CppFunction list \<Rightarrow> FunctionArgs \<Rightarrow> 's \<Rightarrow> 's" where
  "state_after_tries ctors args s = fold (\<lambda>c s'. snd (call_with_args c args s')) ctors s"

fun try_in_order ::
  "'s CppFunction list \<Rightarrow> string \<Rightarrow> FunctionArgs \<Rightarrow> 's \<Rightarrow> (exn + FunctionResult) \<times> 's" where
  "try_in_order [] qn args s =
     (Inl (Runtime_error (''No suitable constructor found for '' @ qn)), s)"
| "try_in_order (c # cs) qn args s =
     (case call_with_args c args s of
        (Inr result, s') \<Rightarrow> (Inr result, s')
      | (Inl e, s') \<Rightarrow>
          (case what e of
             Some msg \<Rightarrow> try_in_order cs qn args s'
           | None \<Rightarrow> (Inl e, s')))"

subsection \<open>Example registries\<close>

text \<open>
  The class \<open>ns::Counter\<close> with a constructor without arguments and one from an integer,
  a class without constructors, a class whose first constructor throws the integer 42,
  the operator \<open>ns::add\<close> with a CPU implementation only, an operator with a CUDA
  implementation only, and operators whose implementations throw.
\<close>

definition Counter :: "(cpp_type, cpp_value, string list) CurClass" where
  "Counter = \<lparr>intrusive_ptr_type = T_object,
     make_intrusive = (\<lambda>Types args log.
       case args of
         [] \<Rightarrow> (Inr 0, log @ [''Counter()''])
       | [Arith_int n] \<Rightarrow> (Inr (nat n), log @ [''Counter(int)''])
       | _ \<Rightarrow> (Inl (Std_exception ''no such constructor''), log))\<rparr>"

definition Counter_init0 :: "string list CppFunction" where
  "Counter_init0 = CppFunction_of_lambda (constructor_func example_ops [] Counter [])"

definition Counter_init1 :: "string list CppFunction" where
  "Counter_init1 = CppFunction_of_lambda (constructor_func example_ops [0] Counter [T_int])"

definition Counter_classes :: "string list ClassRegistry" where
  "Counter_classes =
     [''ns::Counter'' \<mapsto> (ClassRegistration_new ''ns'' ''Counter'')
        \<lparr>constructors :=
           [Counter_init0, Counter_init1]\<rparr>,
      ''ns::Empty'' \<mapsto> ClassRegistration_new ''ns'' ''Empty'',
      ''ns::Picky'' \<mapsto> (ClassRegistration_new ''ns'' ''Picky'')
        \<lparr>constructors :=
           [CppFunction_of_lambda (throws_object ''first'' ''42''),
            CppFunction_of_lambda (returns ''second'' (IObject 7))]\<rparr>]"

definition add :: "(cpp_type, cpp_value, string list) native_function" where
  "add = \<lparr>Args = [T_int, T_int],
     body = (\<lambda>xs log.
       case xs of
         [Arith_int a, Arith_int b] \<Rightarrow> (Inr (Some (Arith_int (a + b))), log @ [''add''])
       | _ \<Rightarrow> (Inl (Std_exception ''bad arguments''), log))\<rparr>"

definition add_impl :: "string list CppFunction" where
  "add_impl = CppFunction_of_function_pointer example_ops [0, 1] add"

definition add_registration :: "string list OperatorRegistration" where
  "add_registration =
     \<lparr>op_qualified_name = ''ns::add'', schema = ''add(a, b)'',
      implementations = [CPU \<mapsto> add_impl]\<rparr>"

definition add_operators :: "string list OperatorRegistry" where
  "add_operators = [''ns::add'' \<mapsto> add_registration,
     ''ns::gpu_only'' \<mapsto> \<lparr>op_qualified_name = ''ns::gpu_only'', schema = [],
        implementations = [CUDA \<mapsto> CppFunction_of_lambda (returns ''gpu_only'' INone)]\<rparr>]"

definition failing_operators :: "string list OperatorRegistry" where
  "failing_operators =
     [''ns::a'' \<mapsto> \<lparr>op_qualified_name = ''ns::a'', schema = [],
        implementations = [CPU \<mapsto> CppFunction_of_lambda (returns ''a/CPU'' (IInt 1)),
                           CUDA \<mapsto> CppFunction_of_lambda (throws ''a/CUDA'' ''boom'')]\<rparr>,
      ''ns::b'' \<mapsto> \<lparr>op_qualified_name = ''ns::b'', schema = [],
        implementations = [CPU \<mapsto> CppFunction_of_lambda (throws ''b/CPU'' ''boom'')]\<rparr>,
      ''ns::c'' \<mapsto> \<lparr>op_qualified_name = ''ns::c'', schema = [],
        implementations = [CPU \<mapsto> CppFunction_of_lambda (throws_object ''c/CPU'' ''42'')]\<rparr>]"

definition get_count :: "(cpp_type, cpp_value, string list) member_function" where
  "get_count = \<lparr>method_Args = [],
     method_body = (\<lambda>inst xs log. (Inr (Some (Arith_int 0)), log @ [''Counter::get'']))\<rparr>"

section \<open>Properties\<close>

subsection \<open>\<^verbatim>\<open>FunctionArgs\<close>\<close>

lemma first_throw_find:
  "first_throw g order = map_option (\<lambda>i. projl (g i)) (find (\<lambda>i. isl (g i)) order)"
  by (induction order) (auto split: sum.splits)

lemma get_in_range:
  "i < length args \<Longrightarrow>
   FunctionArgs_get ops T args i =
     (case try_convert_to ops T (args ! i) of
        Some result \<Rightarrow> Inr result
      | None \<Rightarrow> Inl (Runtime_error (''Cannot convert argument '' @ to_string i @ '' from '' @
                   type_string ops (args ! i) @ '' to '' @ typeid_name ops T)))"
  by (simp add: FunctionArgs_get_def Let_def)

lemma collect_map:
  "(\<And>x. x \<in> set xs \<Longrightarrow> g x = Inr (h x)) \<Longrightarrow> collect (map g xs) = Inr (map h xs)"
  by (induction xs) auto

lemma find_cong_set: "(\<And>x. x \<in> set xs \<Longrightarrow> P x = Q x) \<Longrightarrow> find P xs = find Q xs"
  by (induction xs) auto

lemma to_tuple_impl_eq:
  assumes len: "length args = length Types" and ord: "set order = {0..<length Types}"
  shows "to_tuple_impl ops order Types args =
     (case find (\<lambda>i. try_convert_to ops (Types ! i) (args ! i) = None) order of
        Some i \<Rightarrow>
          Inl (Runtime_error (''Cannot convert argument '' @ to_string i @ '' from '' @
                 type_string ops (args ! i) @ '' to '' @ typeid_name ops (Types ! i)))
      | None \<Rightarrow> Inr (map2 (\<lambda>T v. the (try_convert_to ops T v)) Types args))"
proof -
  let ?g = "\<lambda>i. FunctionArgs_get ops (Types ! i) args i"
  let ?bad = "\<lambda>i. try_convert_to ops (Types ! i) (args ! i) = None"
  have isl: "isl (?g i) = ?bad i" if "i \<in> set order" for i
    using that ord len by (auto simp: get_in_range split: option.splits)
  have f: "find (\<lambda>i. isl (?g i)) order = find ?bad order"
    by (rule find_cong_set) (simp add: isl)
  show ?thesis
  proof (cases "find ?bad order")
    case (Some i)
    then have "i \<in> set order" and "?bad i"
      by (auto simp: find_Some_iff)
    then have "?g i = Inl (Runtime_error (''Cannot convert argument '' @ to_string i @ '' from '' @
                 type_string ops (args ! i) @ '' to '' @ typeid_name ops (Types ! i)))"
      using ord len by (simp add: get_in_range)
    then show ?thesis
      using Some by (simp add: to_tuple_impl_def first_throw_find f)
  next
    case None
    then have ok: "\<not> ?bad i" if "i < length Types" for i
      using that ord by (auto simp: find_None_iff)
    have "?g i = Inr (the (try_convert_to ops (Types ! i) (args ! i)))"
      if "i \<in> set [0..<length Types]" for i
      using that len ok [of i] by (auto simp: get_in_range split: option.splits)
    then have "collect (map ?g [0..<length Types]) =
          Inr (map (\<lambda>i. the (try_convert_to ops (Types ! i) (args ! i))) [0..<length Types])"
      by (rule collect_map)
    also have "map (\<lambda>i. the (try_convert_to ops (Types ! i) (args ! i))) [0..<length Types] =
          map2 (\<lambda>T v. the (try_convert_to ops T v)) Types args"
      using len by (intro nth_equalityI) auto
    finally show ?thesis
      using None by (simp add: to_tuple_impl_def first_throw_find f)
  qed
qed

text \<open>
  C5. \<^verbatim>\<open>to_tuple<T1..Tn>()\<close> on an argument list whose size is not \<open>n\<close> throws the
  argument-count error, whatever the conversion is (none is attempted: the result does
  not depend on \<open>ops\<close> beyond the fixed text), for every \<open>n\<close> including 0. When the size
  is \<open>n\<close>, every position is converted with its type; the call throws the conversion
  error of the first position, in the order the positions are evaluated, whose
  conversion fails, and otherwise returns the whole tuple of converted values. The
  result is an error or a tuple of \<open>n\<close> values, never a part of one.
\<close>

theorem to_tuple_arity_then_conversions:
  "(length args \<noteq> length Types \<longrightarrow>
      to_tuple ops order Types args =
        Inl (Runtime_error (''Argument count mismatch: expected '' @ to_string (length Types) @
               '', got '' @ to_string (length args))))
   \<and> (length args = length Types \<and> set order = {0..<length Types} \<longrightarrow>
      to_tuple ops order Types args =
        (case find (\<lambda>i. try_convert_to ops (Types ! i) (args ! i) = None) order of
           Some i \<Rightarrow>
             Inl (Runtime_error (''Cannot convert argument '' @ to_string i @ '' from '' @
                    type_string ops (args ! i) @ '' to '' @ typeid_name ops (Types ! i)))
         | None \<Rightarrow> Inr (map2 (\<lambda>T v. the (try_convert_to ops T v)) Types args)))"
  using to_tuple_impl_eq [of args Types order ops] by (auto simp: to_tuple_def)

theorem to_tuple_witness:
  "to_tuple example_ops [0, 1] [T_int, T_string] [IInt 5] =
     Inl (Runtime_error ''Argument count mismatch: expected 2, got 1'')
   \<and> to_tuple example_ops [] [] [IInt 5] =
     Inl (Runtime_error ''Argument count mismatch: expected 0, got 1'')
   \<and> to_tuple example_ops [0, 1] [T_int, T_string] [IString ''x'', IInt 5] =
     Inl (Runtime_error ''Cannot convert argument 0 from String to l'')
   \<and> to_tuple example_ops [1, 0] [T_int, T_string] [IString ''x'', IInt 5] =
     Inl (Runtime_error ''Cannot convert argument 1 from Int to Ss'')
   \<and> to_tuple example_ops [1, 0] [T_int, T_string] [IInt 5, IString ''x''] =
     Inr [Arith_int 5, Std_string ''x'']"
  using to_tuple_arity_then_conversions
      [where args = "[IInt 5]" and Types = "[T_int, T_string]" and ops = example_ops and order = "[0, 1]"]
    to_tuple_arity_then_conversions
      [where args = "[IInt 5]" and Types = "[]" and ops = example_ops and order = "[]"]
    to_tuple_arity_then_conversions
      [where args = "[IString ''x'', IInt 5]" and Types = "[T_int, T_string]" and ops = example_ops
         and order = "[0, 1]"]
    to_tuple_arity_then_conversions
      [where args = "[IString ''x'', IInt 5]" and Types = "[T_int, T_string]" and ops = example_ops
         and order = "[1, 0]"]
    to_tuple_arity_then_conversions
      [where args = "[IInt 5, IString ''x'']" and Types = "[T_int, T_string]" and ops = example_ops
         and order = "[1, 0]"]
  by (simp add: example_ops_def example_convert_def to_string.simps digit_def
      atLeast0_lessThan_Suc insert_commute numeral_2_eq_2)

text \<open>
  C7, as the code has it. The claim fails for \<^verbatim>\<open>operator[]\<close>, which reads
  \<^verbatim>\<open>args_[index]\<close> unchecked: at index 1 of a list of size 1 no exception is raised, the
  behaviour is undefined, while \<^verbatim>\<open>get_value\<close> throws there.
\<close>

theorem subscript_counterexample:
  "subscript (from_vector [IInt 7]) 1 = Undefined_behaviour
   \<and> get_value (from_vector [IInt 7]) 1 = Inl (Out_of_range ''Argument index out of range'')"
  by (simp add: subscript_def get_value_def from_vector_def)

text \<open>
  C7, amended. For every argument list and every index at or beyond its size, the
  checked reads \<^verbatim>\<open>get<T>(index)\<close> and \<^verbatim>\<open>get_value(index)\<close> throw
  \<^verbatim>\<open>std::out_of_range\<close>, for every type and conversion; \<^verbatim>\<open>operator[]\<close> has no bounds
  check and raises nothing: its behaviour there is undefined.
\<close>

theorem indexed_reads_out_of_range:
  "length args \<le> i \<Longrightarrow>
     FunctionArgs_get ops T args i = Inl (Out_of_range ''Argument index out of range'')
     \<and> get_value args i = Inl (Out_of_range ''Argument index out of range'')
     \<and> subscript args i = Undefined_behaviour"
  by (simp add: FunctionArgs_get_def get_value_def subscript_def)

theorem indexed_reads_witness:
  "length [IInt 7] \<le> (1::nat)
   \<and> FunctionArgs_get example_ops T_int [IInt 7] 1 = Inl (Out_of_range ''Argument index out of range'')
   \<and> get_value [IInt 7] 1 = Inl (Out_of_range ''Argument index out of range'')
   \<and> subscript [IInt 7] 1 = Undefined_behaviour"
  using indexed_reads_out_of_range
      [where args = "[IInt 7]" and i = 1 and ops = example_ops and T = T_int]
  by simp

subsection \<open>\<^verbatim>\<open>FunctionResult\<close>\<close>

text \<open>
  C6. A \<^verbatim>\<open>FunctionResult\<close> has no value exactly when it is the default-constructed one
  (which \<^verbatim>\<open>void_result()\<close> returns) or the one constructed from the none \<^verbatim>\<open>IValue\<close>; a
  result constructed from any other \<^verbatim>\<open>IValue\<close> or from a typed value has one. For every
  type and conversion, \<^verbatim>\<open>get<T>()\<close> throws the void-result error exactly on the results
  without a value; on a result with a value it returns the converted value or throws
  the conversion error, which is never the void-result error.
\<close>

theorem FunctionResult_has_value_get:
  "(\<not> has_value r) = (r = FunctionResult_default \<or> r = FunctionResult_of_IValue INone)
   \<and> void_result = FunctionResult_default
   \<and> \<not> has_value void_result
   \<and> has_value (FunctionResult_of_IValue v) = (\<not> is_none v)
   \<and> has_value (FunctionResult_of_value x) = (x \<noteq> An_IValue INone)
   \<and> FunctionResult_get ops T void_result = Inl (Runtime_error ''No return value (void function)'')
   \<and> (FunctionResult_get ops T r = Inl (Runtime_error ''No return value (void function)''))
       = (\<not> has_value r)
   \<and> (has_value r \<and> try_convert_to ops T (value' r) = None \<longrightarrow>
        FunctionResult_get ops T r =
          Inl (Runtime_error (''Cannot convert result from '' @ type_string ops (value' r) @
                 '' to '' @ typeid_name ops T))
        \<and> FunctionResult_get ops T r \<noteq> FunctionResult_get ops T' void_result)
   \<and> (has_value r \<and> try_convert_to ops T (value' r) = Some y \<longrightarrow>
        FunctionResult_get ops T r = Inr y)"
proof -
  have 1: "(\<not> has_value r) = (r = FunctionResult_default \<or> r = FunctionResult_of_IValue INone)"
    by (cases r; cases "value' r")
       (auto simp: has_value_def FunctionResult_default_def FunctionResult_of_IValue_def)
  have 2: "has_value (FunctionResult_of_value x) = (x \<noteq> An_IValue INone)"
    by (cases x) (auto simp: has_value_def FunctionResult_of_value_def elim: is_none.elims)
  have 3: "has_value (FunctionResult_of_IValue v) = (\<not> is_none v)"
    by (simp add: has_value_def FunctionResult_of_IValue_def)
  have 4: "(FunctionResult_get ops T r = Inl (Runtime_error ''No return value (void function)''))
       = (\<not> has_value r)"
    by (simp add: FunctionResult_get_def has_value_def split: option.splits)
  have 5: "FunctionResult_get ops T' void_result =
      Inl (Runtime_error ''No return value (void function)'')" for T'
    by (simp add: void_result_def FunctionResult_default_def FunctionResult_get_def)
  have 6: "has_value r \<and> try_convert_to ops T (value' r) = None \<longrightarrow>
        FunctionResult_get ops T r =
          Inl (Runtime_error (''Cannot convert result from '' @ type_string ops (value' r) @
                 '' to '' @ typeid_name ops T))
        \<and> FunctionResult_get ops T r \<noteq> FunctionResult_get ops T' void_result"
    by (simp add: 5) (simp add: FunctionResult_get_def has_value_def)
  have 7: "has_value r \<and> try_convert_to ops T (value' r) = Some y \<longrightarrow>
        FunctionResult_get ops T r = Inr y"
    by (simp add: FunctionResult_get_def has_value_def)
  have 8: "void_result = FunctionResult_default \<and> \<not> has_value void_result"
    by (simp add: void_result_def FunctionResult_default_def has_value_def)
  from 1 2 3 4 5 [of T] 6 7 8 show ?thesis by blast
qed

theorem FunctionResult_witness:
  "has_value (FunctionResult_of_IValue (IString ''x''))
   \<and> FunctionResult_get example_ops T_int (FunctionResult_of_IValue (IString ''x'')) =
       Inl (Runtime_error ''Cannot convert result from String to l'')
   \<and> FunctionResult_get example_ops T_int (FunctionResult_of_IValue (IString ''x'')) \<noteq>
       FunctionResult_get example_ops T_int void_result
   \<and> FunctionResult_get example_ops T_string (FunctionResult_of_IValue (IString ''x'')) =
       Inr (Std_string ''x'')
   \<and> FunctionResult_get example_ops T_string void_result =
       Inl (Runtime_error ''No return value (void function)'')"
proof -
  let ?r = "FunctionResult_of_IValue (IString ''x'')"
  have v: "has_value ?r" and val: "value' ?r = IString ''x''"
    by (simp_all add: has_value_def FunctionResult_of_IValue_def)
  have none: "try_convert_to example_ops T_int (value' ?r) = None"
    and some: "try_convert_to example_ops T_string (value' ?r) = Some (Std_string ''x'')"
    by (simp_all add: val example_ops_def example_convert_def)
  have msg: "''Cannot convert result from '' @ type_string example_ops (value' ?r) @
      '' to '' @ typeid_name example_ops T_int = ''Cannot convert result from String to l''"
    by (simp add: val example_ops_def)
  have "FunctionResult_get example_ops T_int ?r =
          Inl (Runtime_error (''Cannot convert result from '' @ type_string example_ops (value' ?r) @
                 '' to '' @ typeid_name example_ops T_int))"
    and differ: "FunctionResult_get example_ops T_int ?r \<noteq>
          FunctionResult_get example_ops T_int void_result"
    using v none
      FunctionResult_has_value_get [where r = ?r and ops = example_ops and T = T_int and T' = T_int]
    by blast+
  then have a: "FunctionResult_get example_ops T_int ?r =
       Inl (Runtime_error ''Cannot convert result from String to l'')"
    by (simp only: msg)
  have b: "FunctionResult_get example_ops T_string ?r = Inr (Std_string ''x'')
     \<and> FunctionResult_get example_ops T_string void_result =
       Inl (Runtime_error ''No return value (void function)'')"
    using v some
      FunctionResult_has_value_get [where r = ?r and ops = example_ops and T = T_string
        and y = "Std_string ''x''"]
    by blast
  from a differ b v show ?thesis by blast
qed

subsection \<open>\<^verbatim>\<open>ClassRegistry\<close>\<close>

text \<open>
  C8. Whatever the registry holds, after \<^verbatim>\<open>register_class(ns, cn)\<close> the name
  \<open>ns::cn\<close> is registered with an empty constructor list and empty method maps, and a
  second \<^verbatim>\<open>register_class(ns, cn)\<close> changes nothing more. In particular, after
  registering the class, a constructor, an instance method and a static method (which
  the registration then holds), registering the class again leaves the registry as the
  first registration alone left it.
\<close>

theorem register_class_replaces:
  "register_class ns cn classes (ns @ ''::'' @ cn) = Some (ClassRegistration_new ns cn)
   \<and> constructors (ClassRegistration_new ns cn :: 's ClassRegistration) = []
   \<and> methods (ClassRegistration_new ns cn :: 's ClassRegistration) = Map.empty
   \<and> static_methods (ClassRegistration_new ns cn :: 's ClassRegistration) = Map.empty
   \<and> register_class ns cn (register_class ns cn classes) = register_class ns cn classes
   \<and> (register_constructor (ns @ ''::'' @ cn) c (register_class ns cn (before :: 's ClassRegistry)) =
          Inr with_ctor
        \<and> register_method (ns @ ''::'' @ cn) m f with_ctor = Inr with_method
        \<and> register_static_method (ns @ ''::'' @ cn) m' g with_method = Inr with_static
      \<longrightarrow> (\<exists>reg. with_static (ns @ ''::'' @ cn) = Some reg \<and> constructors reg = [c]
              \<and> methods reg = [m \<mapsto> f] \<and> static_methods reg = [m' \<mapsto> g])
          \<and> register_class ns cn with_static = register_class ns cn before)"
  by (auto simp: register_class_def ClassRegistration_new_def register_constructor_def
      register_method_def register_static_method_def Let_def)

theorem register_class_replaces_witness:
  "register_constructor ''ns::Counter'' (CppFunction_of_lambda (returns ''ctor'' (IObject 1)))
       (register_class ''ns'' ''Counter'' Map.empty) =
     Inr [''ns::Counter'' \<mapsto> (ClassRegistration_new ''ns'' ''Counter'')
            \<lparr>constructors := [CppFunction_of_lambda (returns ''ctor'' (IObject 1))]\<rparr>]
   \<and> register_method ''ns::Counter'' ''get'' (CppFunction_of_lambda (returns ''get'' (IInt 0)))
       [''ns::Counter'' \<mapsto> (ClassRegistration_new ''ns'' ''Counter'')
            \<lparr>constructors := [CppFunction_of_lambda (returns ''ctor'' (IObject 1))]\<rparr>] =
     Inr [''ns::Counter'' \<mapsto> (ClassRegistration_new ''ns'' ''Counter'')
            \<lparr>constructors := [CppFunction_of_lambda (returns ''ctor'' (IObject 1))],
             methods := [''get'' \<mapsto> CppFunction_of_lambda (returns ''get'' (IInt 0))]\<rparr>]
   \<and> register_static_method ''ns::Counter'' ''make'' (CppFunction_of_lambda (returns ''make'' (IObject 2)))
       [''ns::Counter'' \<mapsto> (ClassRegistration_new ''ns'' ''Counter'')
            \<lparr>constructors := [CppFunction_of_lambda (returns ''ctor'' (IObject 1))],
             methods := [''get'' \<mapsto> CppFunction_of_lambda (returns ''get'' (IInt 0))]\<rparr>] =
     Inr [''ns::Counter'' \<mapsto> (ClassRegistration_new ''ns'' ''Counter'')
            \<lparr>constructors := [CppFunction_of_lambda (returns ''ctor'' (IObject 1))],
             methods := [''get'' \<mapsto> CppFunction_of_lambda (returns ''get'' (IInt 0))],
             static_methods := [''make'' \<mapsto> CppFunction_of_lambda (returns ''make'' (IObject 2))]\<rparr>]
   \<and> register_class ''ns'' ''Counter''
       [''ns::Counter'' \<mapsto> (ClassRegistration_new ''ns'' ''Counter'')
            \<lparr>constructors := [CppFunction_of_lambda (returns ''ctor'' (IObject 1))],
             methods := [''get'' \<mapsto> CppFunction_of_lambda (returns ''get'' (IInt 0))],
             static_methods := [''make'' \<mapsto> CppFunction_of_lambda (returns ''make'' (IObject 2))]\<rparr>] =
     [''ns::Counter'' \<mapsto> ClassRegistration_new ''ns'' ''Counter'']"
  using register_class_replaces
    [where ns = "''ns''" and cn = "''Counter''" and before = Map.empty
       and c = "CppFunction_of_lambda (returns ''ctor'' (IObject 1))"
       and m = "''get''" and f = "CppFunction_of_lambda (returns ''get'' (IInt 0))"
       and m' = "''make''" and g = "CppFunction_of_lambda (returns ''make'' (IObject 2))"
       and with_ctor = "[''ns::Counter'' \<mapsto> (ClassRegistration_new ''ns'' ''Counter'')
            \<lparr>constructors := [CppFunction_of_lambda (returns ''ctor'' (IObject 1))]\<rparr>]"
       and with_method = "[''ns::Counter'' \<mapsto> (ClassRegistration_new ''ns'' ''Counter'')
            \<lparr>constructors := [CppFunction_of_lambda (returns ''ctor'' (IObject 1))],
             methods := [''get'' \<mapsto> CppFunction_of_lambda (returns ''get'' (IInt 0))]\<rparr>]"
       and with_static = "[''ns::Counter'' \<mapsto> (ClassRegistration_new ''ns'' ''Counter'')
            \<lparr>constructors := [CppFunction_of_lambda (returns ''ctor'' (IObject 1))],
             methods := [''get'' \<mapsto> CppFunction_of_lambda (returns ''get'' (IInt 0))],
             static_methods := [''make'' \<mapsto> CppFunction_of_lambda (returns ''make'' (IObject 2))]\<rparr>]"]
  by (simp add: register_class_def register_constructor_def register_method_def
      register_static_method_def ClassRegistration_new_def)

lemma constructor_loop_drop:
  "constructor_loop ctors qn args i s = try_in_order (drop i ctors) qn args s"
proof (induction ctors qn args i s rule: constructor_loop.induct)
  case (1 ctors qn args i s)
  show ?case
  proof (cases "i < length ctors")
    case True
    then have d: "drop i ctors = ctors ! i # drop (Suc i) ctors"
      by (simp add: Cons_nth_drop_Suc)
    obtain r s' where c: "call_with_args (ctors ! i) args s = (r, s')"
      by (cases "call_with_args (ctors ! i) args s")
    show ?thesis
    proof (cases r)
      case (Inr result)
      then show ?thesis
        using True c d by (simp add: constructor_loop.simps [of ctors qn args i s])
    next
      case (Inl e)
      show ?thesis
      proof (cases "what e")
        case None
        then show ?thesis
          using True c d Inl by (simp add: constructor_loop.simps [of ctors qn args i s])
      next
        case (Some msg)
        have "constructor_loop ctors qn args (i + 1) s' = try_in_order (drop (i + 1) ctors) qn args s'"
          using "1.IH" [OF True refl, of e msg] c Inl Some by simp
        then show ?thesis
          using True c d Inl Some by (simp add: constructor_loop.simps [of ctors qn args i s])
      qed
    qed
  next
    case False
    then show ?thesis
      by (simp add: constructor_loop.simps [of ctors qn args i s])
  qed
qed

lemma state_after_tries_Cons:
  "state_after_tries (c # cs) args s = state_after_tries cs args (snd (call_with_args c args s))"
  by (simp add: state_after_tries_def)

lemma throws_std_exception_iff:
  "throws_std_exception r = (\<exists>e msg s'. r = (Inl e, s') \<and> what e = Some msg)"
  by (cases r; cases "fst r") (auto simp: throws_std_exception_def)

lemma try_in_order_stops:
  "i < length cs \<Longrightarrow>
   \<forall>j<i. throws_std_exception (call_with_args (cs ! j) args (state_after_tries (take j cs) args s)) \<Longrightarrow>
   \<not> throws_std_exception (call_with_args (cs ! i) args (state_after_tries (take i cs) args s)) \<Longrightarrow>
   try_in_order cs qn args s = call_with_args (cs ! i) args (state_after_tries (take i cs) args s)"
proof (induction cs arbitrary: i s)
  case Nil
  then show ?case by simp
next
  case (Cons c cs)
  show ?case
  proof (cases i)
    case 0
    then have "\<not> throws_std_exception (call_with_args c args s)"
      using Cons.prems(3) by (simp add: state_after_tries_def)
    then show ?thesis
      using 0
      by (cases "call_with_args c args s")
         (auto simp: throws_std_exception_def state_after_tries_def split: sum.splits option.splits)
  next
    case (Suc k)
    from Cons.prems(2) Suc have "throws_std_exception (call_with_args c args s)"
      by (auto simp: state_after_tries_def dest: spec [of _ 0])
    then obtain e msg s' where c: "call_with_args c args s = (Inl e, s')" "what e = Some msg"
      by (auto simp: throws_std_exception_iff)
    have "\<forall>j<k. throws_std_exception
            (call_with_args (cs ! j) args (state_after_tries (take j cs) args s'))"
    proof (intro allI impI)
      fix j assume "j < k"
      then have "Suc j < i" using Suc by simp
      with Cons.prems(2) show "throws_std_exception
            (call_with_args (cs ! j) args (state_after_tries (take j cs) args s'))"
        using c by (auto simp: state_after_tries_Cons dest: spec [of _ "Suc j"])
    qed
    moreover have "\<not> throws_std_exception
            (call_with_args (cs ! k) args (state_after_tries (take k cs) args s'))"
      using Cons.prems(3) Suc c by (simp add: state_after_tries_Cons)
    moreover have "k < length cs" using Cons.prems(1) Suc by simp
    ultimately have "try_in_order cs qn args s' =
        call_with_args (cs ! k) args (state_after_tries (take k cs) args s')"
      by (rule Cons.IH [rotated -1, rotated -1])
    then show ?thesis using c Suc by (simp add: state_after_tries_Cons)
  qed
qed

lemma try_in_order_exhausted_iff:
  "(fst (try_in_order cs qn args s) =
      Inl (Runtime_error (''No suitable constructor found for '' @ qn))) =
     (\<forall>j<length cs. throws_std_exception
        (call_with_args (cs ! j) args (state_after_tries (take j cs) args s)))"
proof (induction cs arbitrary: s)
  case Nil
  then show ?case by simp
next
  case (Cons c cs)
  obtain r s' where c: "call_with_args c args s = (r, s')"
    by (cases "call_with_args c args s")
  have shift: "(\<forall>j<length (c # cs). throws_std_exception
          (call_with_args ((c # cs) ! j) args (state_after_tries (take j (c # cs)) args s)))
      = (throws_std_exception (r, s') \<and>
         (\<forall>j<length cs. throws_std_exception
            (call_with_args (cs ! j) args (state_after_tries (take j cs) args s'))))"
    using c by (auto simp: All_less_Suc2 state_after_tries_Cons) (simp_all add: state_after_tries_def)
  show ?case
  proof (cases r)
    case (Inr x)
    then show ?thesis using c shift by (simp add: throws_std_exception_def)
  next
    case (Inl e)
    show ?thesis
    proof (cases "what e")
      case None
      then have "e \<noteq> Runtime_error (''No suitable constructor found for '' @ qn)"
        by auto
      then show ?thesis using c shift Inl None by (simp add: throws_std_exception_def)
    next
      case (Some msg)
      then show ?thesis
        using c shift Inl Cons.IH [of s'] by (simp add: throws_std_exception_def)
    qed
  qed
qed

lemma try_in_order_std_error:
  "fst (try_in_order cs qn args s) = Inl e \<Longrightarrow> what e \<noteq> None \<Longrightarrow>
     try_in_order cs qn args s =
       (Inl (Runtime_error (''No suitable constructor found for '' @ qn)), state_after_tries cs args s)"
proof (induction cs arbitrary: s)
  case Nil
  then show ?case by (simp add: state_after_tries_def)
next
  case (Cons c cs)
  then show ?case
    by (cases "call_with_args c args s")
       (auto simp: state_after_tries_Cons split: sum.splits option.splits)
qed

text \<open>
  C2, as the code has it. The first constructor of \<open>ns::Picky\<close> throws the integer 42,
  the second would return. The handler in the loop does not match the integer: the
  call ends with it, and the second constructor is not tried.
\<close>

theorem call_constructor_counterexample:
  "call_constructor_with_args Counter_classes ''ns::Picky'' [] [] =
     (Inl (Thrown_object ''42''), [''first''])
   \<and> call_with_args (CppFunction_of_lambda (returns ''second'' (IObject 7))) [] [''first''] =
     (Inr \<lparr>value' = IObject 7\<rparr>, [''first'', ''second''])"
  by (simp add: call_constructor_with_args_def Counter_classes_def ClassRegistration_new_def
      constructor_loop.simps [of _ _ _ 0] call_with_args_def CppFunction_of_lambda_def
      wrap_callable_def throws_object_def returns_def FunctionResult_of_IValue_def)

text \<open>
  C2, amended. An unregistered name and a class without constructors make
  \<^verbatim>\<open>call_constructor_with_args\<close> throw at once, the world state untouched (no callable
  has run). Otherwise, if the constructors before index \<open>i\<close> each throw a
  \<^verbatim>\<open>std::exception\<close> when called in registration order, then: if the one at \<open>i\<close> returns,
  the call returns that result; if the one at \<open>i\<close> throws an object that is no
  \<^verbatim>\<open>std::exception\<close>, the call ends with that object, in the state that constructor
  left, the later ones untried. The call throws the no-suitable-constructor error
  exactly when every constructor throws a \<^verbatim>\<open>std::exception\<close>, and that is the only
  \<^verbatim>\<open>std::exception\<close> it throws for a class with constructors.
\<close>

theorem call_constructor_first_success:
  "(classes qn = None \<longrightarrow>
      call_constructor_with_args classes qn args s =
        (Inl (Runtime_error (''Class '' @ qn @ '' not found!'')), s))
   \<and> (classes qn = Some reg \<and> constructors reg = [] \<longrightarrow>
      call_constructor_with_args classes qn args s =
        (Inl (Runtime_error (''No constructor registered for '' @ qn)), s))
   \<and> (classes qn = Some reg \<and> i < length (constructors reg)
       \<and> (\<forall>j<i. throws_std_exception (call_with_args (constructors reg ! j) args
                    (state_after_tries (take j (constructors reg)) args s)))
       \<and> call_with_args (constructors reg ! i) args
            (state_after_tries (take i (constructors reg)) args s) = (Inr result, s') \<longrightarrow>
      call_constructor_with_args classes qn args s = (Inr result, s'))
   \<and> (classes qn = Some reg \<and> i < length (constructors reg)
       \<and> (\<forall>j<i. throws_std_exception (call_with_args (constructors reg ! j) args
                    (state_after_tries (take j (constructors reg)) args s)))
       \<and> call_with_args (constructors reg ! i) args
            (state_after_tries (take i (constructors reg)) args s) = (Inl e, s')
       \<and> what e = None \<longrightarrow>
      call_constructor_with_args classes qn args s = (Inl e, s'))
   \<and> (classes qn = Some reg \<and> constructors reg \<noteq> [] \<longrightarrow>
      (fst (call_constructor_with_args classes qn args s) =
         Inl (Runtime_error (''No suitable constructor found for '' @ qn)))
      = (\<forall>j<length (constructors reg).
           throws_std_exception (call_with_args (constructors reg ! j) args
                  (state_after_tries (take j (constructors reg)) args s))))
   \<and> (classes qn = Some reg \<and> constructors reg \<noteq> []
       \<and> fst (call_constructor_with_args classes qn args s) = Inl e \<and> what e \<noteq> None \<longrightarrow>
      call_constructor_with_args classes qn args s =
        (Inl (Runtime_error (''No suitable constructor found for '' @ qn)),
         state_after_tries (constructors reg) args s))"
proof -
  let ?cs = "constructors reg"
  let ?at = "\<lambda>j. call_with_args (?cs ! j) args (state_after_tries (take j ?cs) args s)"
  have loop: "call_constructor_with_args classes qn args s = try_in_order ?cs qn args s"
    if "classes qn = Some reg" "?cs \<noteq> []"
    using that by (simp add: call_constructor_with_args_def constructor_loop_drop)
  have a: "classes qn = None \<longrightarrow>
      call_constructor_with_args classes qn args s =
        (Inl (Runtime_error (''Class '' @ qn @ '' not found!'')), s)"
    by (simp add: call_constructor_with_args_def)
  have b: "classes qn = Some reg \<and> ?cs = [] \<longrightarrow>
      call_constructor_with_args classes qn args s =
        (Inl (Runtime_error (''No constructor registered for '' @ qn)), s)"
    by (simp add: call_constructor_with_args_def)
  have stop: "call_constructor_with_args classes qn args s = ?at i"
    if h: "classes qn = Some reg" "i < length ?cs" "\<forall>j<i. throws_std_exception (?at j)"
      "\<not> throws_std_exception (?at i)"
  proof -
    from h(2) have "?cs \<noteq> []" by auto
    with h(1) have "call_constructor_with_args classes qn args s = try_in_order ?cs qn args s"
      by (rule loop)
    also have "\<dots> = ?at i"
      using h(2-4) by (rule try_in_order_stops)
    finally show ?thesis .
  qed
  have c: "classes qn = Some reg \<and> i < length ?cs \<and> (\<forall>j<i. throws_std_exception (?at j))
       \<and> ?at i = (Inr result, s') \<longrightarrow>
      call_constructor_with_args classes qn args s = (Inr result, s')"
    using stop by (auto simp: throws_std_exception_def)
  have c': "classes qn = Some reg \<and> i < length ?cs \<and> (\<forall>j<i. throws_std_exception (?at j))
       \<and> ?at i = (Inl e, s') \<and> what e = None \<longrightarrow>
      call_constructor_with_args classes qn args s = (Inl e, s')"
    using stop by (auto simp: throws_std_exception_def)
  have d: "classes qn = Some reg \<and> ?cs \<noteq> [] \<longrightarrow>
      (fst (call_constructor_with_args classes qn args s) =
         Inl (Runtime_error (''No suitable constructor found for '' @ qn)))
      = (\<forall>j<length ?cs. throws_std_exception (?at j))"
    using loop try_in_order_exhausted_iff [of ?cs qn args s] by auto
  have e: "classes qn = Some reg \<and> ?cs \<noteq> []
       \<and> fst (call_constructor_with_args classes qn args s) = Inl e \<and> what e \<noteq> None \<longrightarrow>
      call_constructor_with_args classes qn args s =
        (Inl (Runtime_error (''No suitable constructor found for '' @ qn)),
         state_after_tries ?cs args s)"
    using loop try_in_order_std_error [of ?cs qn args s e] by auto
  from a b c c' d e show ?thesis by blast
qed

lemma Counter_simps:
  "Counter_classes ''ns::Counter'' = Some ((ClassRegistration_new ''ns'' ''Counter'')
        \<lparr>constructors := [Counter_init0, Counter_init1]\<rparr>)"
  "Counter_classes ''ns::Empty'' = Some (ClassRegistration_new ''ns'' ''Empty'')"
  "Counter_classes ''ns::Missing'' = None"
  "Counter_classes ''ns::Picky'' = Some ((ClassRegistration_new ''ns'' ''Picky'')
        \<lparr>constructors :=
           [CppFunction_of_lambda (throws_object ''first'' ''42''),
            CppFunction_of_lambda (returns ''second'' (IObject 7))]\<rparr>)"
  by (simp_all add: Counter_classes_def)

lemma ctor0: "call_with_args Counter_init0 [] log
   = (Inr \<lparr>value' = IObject 0\<rparr>, log @ [''Counter()''])"
  by (simp add: call_with_args_def Counter_init0_def Counter_init1_def CppFunction_of_lambda_def wrap_callable_def constructor_func_def
      Counter_def FunctionResult_of_IValue_def)

lemma ctor0_5: "call_with_args Counter_init0 [IInt 5] log
   = (Inl (Runtime_error ''Lambda execution failed: Default constructor expects 0 arguments, got 1''), log)"
  by (simp add: call_with_args_def Counter_init0_def Counter_init1_def CppFunction_of_lambda_def wrap_callable_def constructor_func_def
      Counter_def FunctionResult_of_IValue_def to_string.simps digit_def)

lemma ctor1_5: "call_with_args Counter_init1 [IInt 5] log
   = (Inr \<lparr>value' = IObject 5\<rparr>, log @ [''Counter(int)''])"
  by (simp add: call_with_args_def Counter_init0_def Counter_init1_def CppFunction_of_lambda_def wrap_callable_def constructor_func_def
      Counter_def FunctionResult_of_IValue_def to_tuple_def to_tuple_impl_def FunctionArgs_get_def
      example_ops_def example_convert_def)

lemma ctor0_xy: "call_with_args Counter_init0
     [IString ''x'', IString ''y''] log
   = (Inl (Runtime_error ''Lambda execution failed: Default constructor expects 0 arguments, got 2''), log)"
  by (simp add: call_with_args_def Counter_init0_def Counter_init1_def CppFunction_of_lambda_def wrap_callable_def constructor_func_def
      to_string.simps digit_def)

lemma ctor1_xy: "call_with_args Counter_init1
     [IString ''x'', IString ''y''] log
   = (Inl (Runtime_error
       ''Lambda execution failed: Constructor argument count mismatch: expected 1, got 2''), log)"
  by (simp add: call_with_args_def Counter_init0_def Counter_init1_def CppFunction_of_lambda_def wrap_callable_def constructor_func_def
      to_string.simps digit_def)

lemma call_with_args_throws_object:
  "call_with_args (CppFunction_of_lambda (throws_object label obj)) args log =
     (Inl (Thrown_object obj), log @ [label])"
  by (simp add: call_with_args_def CppFunction_of_lambda_def wrap_callable_def throws_object_def)

theorem call_constructor_witness:
  "call_constructor_with_args Counter_classes ''ns::Counter'' [] [] =
     (Inr \<lparr>value' = IObject 0\<rparr>, [''Counter()''])
   \<and> call_constructor_with_args Counter_classes ''ns::Counter'' [IInt 5] [] =
     (Inr \<lparr>value' = IObject 5\<rparr>, [''Counter(int)''])
   \<and> call_constructor_with_args Counter_classes ''ns::Counter'' [IString ''x'', IString ''y''] [] =
     (Inl (Runtime_error ''No suitable constructor found for ns::Counter''), [])
   \<and> call_constructor_with_args Counter_classes ''ns::Missing'' [] [] =
     (Inl (Runtime_error ''Class ns::Missing not found!''), [])
   \<and> call_constructor_with_args Counter_classes ''ns::Empty'' [] [] =
     (Inl (Runtime_error ''No constructor registered for ns::Empty''), [])
   \<and> call_constructor_with_args Counter_classes ''ns::Picky'' [] [] =
     (Inl (Thrown_object ''42''), [''first''])"
proof -
  let ?reg = "(ClassRegistration_new ''ns'' ''Counter'')
        \<lparr>constructors := [Counter_init0, Counter_init1]\<rparr>"
  let ?picky = "(ClassRegistration_new ''ns'' ''Picky'')
        \<lparr>constructors :=
           [CppFunction_of_lambda (throws_object ''first'' ''42''),
            CppFunction_of_lambda (returns ''second'' (IObject 7))]\<rparr>"
  note T = call_constructor_first_success [where classes = Counter_classes and s = "[]"]
  have 1: "call_constructor_with_args Counter_classes ''ns::Counter'' [] [] =
     (Inr \<lparr>value' = IObject 0\<rparr>, [''Counter()''])"
    using T [where qn = "''ns::Counter''" and reg = ?reg and i = 0 and args = "[]"
        and result = "\<lparr>value' = IObject 0\<rparr>" and s' = "[''Counter()'']"]
    by (simp add: Counter_simps ctor0 state_after_tries_def)
  have 2: "call_constructor_with_args Counter_classes ''ns::Counter'' [IInt 5] [] =
     (Inr \<lparr>value' = IObject 5\<rparr>, [''Counter(int)''])"
    using T [where qn = "''ns::Counter''" and reg = ?reg and i = 1 and args = "[IInt 5]"
        and result = "\<lparr>value' = IObject 5\<rparr>" and s' = "[''Counter(int)'']"]
    by (simp add: Counter_simps ctor0_5 ctor1_5 state_after_tries_def throws_std_exception_def)
  have 3: "call_constructor_with_args Counter_classes ''ns::Counter'' [IString ''x'', IString ''y''] [] =
     (Inl (Runtime_error ''No suitable constructor found for ns::Counter''), [])"
    using T [where qn = "''ns::Counter''" and reg = ?reg and args = "[IString ''x'', IString ''y'']"
        and e = "Runtime_error ''No suitable constructor found for ns::Counter''"]
    by (simp add: Counter_simps ctor0_xy ctor1_xy state_after_tries_def All_less_Suc
        throws_std_exception_def)
  have 4: "call_constructor_with_args Counter_classes ''ns::Missing'' [] [] =
     (Inl (Runtime_error ''Class ns::Missing not found!''), [])"
    using T [where qn = "''ns::Missing''" and args = "[]"]
    by (simp add: Counter_simps)
  have 5: "call_constructor_with_args Counter_classes ''ns::Empty'' [] [] =
     (Inl (Runtime_error ''No constructor registered for ns::Empty''), [])"
    using T [where qn = "''ns::Empty''" and args = "[]" and reg = "ClassRegistration_new ''ns'' ''Empty''"]
    by (simp add: Counter_simps ClassRegistration_new_def)
  have 6: "call_constructor_with_args Counter_classes ''ns::Picky'' [] [] =
     (Inl (Thrown_object ''42''), [''first''])"
    using T [where qn = "''ns::Picky''" and reg = ?picky and i = 0 and args = "[]"
        and e = "Thrown_object ''42''" and s' = "[''first'']"]
    by (simp add: Counter_simps call_with_args_throws_object state_after_tries_def)
  from 1 2 3 4 5 6 show ?thesis by simp
qed

text \<open>
  C10. \<^verbatim>\<open>def(name, f)\<close> with a callable that is not a member function pointer returns
  normally and leaves the registry as it was. So when the class has no method of that
  name (as right after the builder was made), \<^verbatim>\<open>call_method_with_args\<close> for that name
  throws the method-not-found error after the \<^verbatim>\<open>def\<close>, in both overloads.
\<close>

theorem def_generic_callable_registers_nothing:
  "def_method ops order cur name (Generic_callable g) b classes = Inr classes
   \<and> (classes (builder_qualified_name b) = Some reg \<and> methods reg name = None
       \<and> def_method ops order cur name (Generic_callable g) b classes = Inr classes' \<longrightarrow>
      call_method_with_args classes' (builder_qualified_name b) name args s =
        (Inl (Runtime_error (''Method '' @ name @ '' not found in '' @
                builder_qualified_name b @ ''!'')), s)
      \<and> call_method_with_args_instance classes' (builder_qualified_name b) name inst args s =
        (Inl (Runtime_error (''Instance method '' @ name @ '' not found in '' @
                builder_qualified_name b @ ''!'')), s))
   \<and> (class_new ns cn before = (b, classes)
       \<and> def_method ops order cur name (Generic_callable g) b classes = Inr classes' \<longrightarrow>
      call_method_with_args classes' (ns @ ''::'' @ cn) name args s =
        (Inl (Runtime_error (''Method '' @ name @ '' not found in '' @ ns @ ''::'' @ cn @ ''!'')), s))"
  by (auto simp: def_method_def call_method_with_args_def call_method_with_args_instance_def
      class_new_def register_class_def ClassRegistration_new_def)

theorem def_generic_callable_witness:
  "class_new ''ns'' ''Counter'' (Map.empty :: string list ClassRegistry) =
     (\<lparr>builder_namespace_name = ''ns'', builder_class_name = ''Counter'',
       builder_qualified_name = ''ns::Counter''\<rparr>,
      [''ns::Counter'' \<mapsto> ClassRegistration_new ''ns'' ''Counter''])
   \<and> def_method example_ops [] Counter ''get'' (Generic_callable (returns ''get'' (IInt 0)))
       \<lparr>builder_namespace_name = ''ns'', builder_class_name = ''Counter'',
        builder_qualified_name = ''ns::Counter''\<rparr>
       [''ns::Counter'' \<mapsto> ClassRegistration_new ''ns'' ''Counter''] =
     Inr [''ns::Counter'' \<mapsto> ClassRegistration_new ''ns'' ''Counter'']
   \<and> call_method_with_args [''ns::Counter'' \<mapsto> ClassRegistration_new ''ns'' ''Counter'']
       ''ns::Counter'' ''get'' [IObject 0] ([] :: string list) =
     (Inl (Runtime_error ''Method get not found in ns::Counter!''), [])
   \<and> call_method_with_args_instance [''ns::Counter'' \<mapsto> ClassRegistration_new ''ns'' ''Counter'']
       ''ns::Counter'' ''get'' (IObject 0) [IObject 0] ([] :: string list) =
     (Inl (Runtime_error ''Instance method get not found in ns::Counter!''), [])
   \<and> (case def_method example_ops [] Counter ''get'' (Member_function_pointer get_count)
              \<lparr>builder_namespace_name = ''ns'', builder_class_name = ''Counter'',
               builder_qualified_name = ''ns::Counter''\<rparr>
              [''ns::Counter'' \<mapsto> ClassRegistration_new ''ns'' ''Counter''] of
         Inl e \<Rightarrow> (Inl e, [])
       | Inr classes \<Rightarrow> call_method_with_args classes ''ns::Counter'' ''get'' [IObject 0] []) =
     (Inr \<lparr>value' = IInt 0\<rparr>, [''Counter::get''])"
proof -
  let ?b = "\<lparr>builder_namespace_name = ''ns'', builder_class_name = ''Counter'',
             builder_qualified_name = ''ns::Counter''\<rparr>"
  let ?classes = "[''ns::Counter'' \<mapsto> ClassRegistration_new ''ns'' ''Counter''] :: string list ClassRegistry"
  note T = def_generic_callable_registers_nothing
    [where ops = example_ops and order = "[]" and cur = Counter and name = "''get''"
       and g = "returns ''get'' (IInt 0)" and ns = "''ns''" and cn = "''Counter''"
       and before = Map.empty and b = ?b and classes = ?classes and classes' = ?classes
       and reg = "ClassRegistration_new ''ns'' ''Counter''" and args = "[IObject 0]"
       and inst = "IObject 0" and s = "[]"]
  have new: "class_new ''ns'' ''Counter'' Map.empty = (?b, ?classes)"
    by (simp add: class_new_def register_class_def)
  have unchanged: "def_method example_ops [] Counter ''get''
      (Generic_callable (returns ''get'' (IInt 0))) ?b ?classes = Inr ?classes"
    using T by (rule conjunct1)
  have absent: "methods (ClassRegistration_new ''ns'' ''Counter'' :: string list ClassRegistration)
      ''get'' = None"
    by (simp add: ClassRegistration_new_def)
  have "call_method_with_args ?classes ''ns::Counter'' ''get'' [IObject 0] [] =
          (Inl (Runtime_error ''Method get not found in ns::Counter!''), [])
        \<and> call_method_with_args_instance ?classes ''ns::Counter'' ''get'' (IObject 0) [IObject 0] [] =
          (Inl (Runtime_error ''Instance method get not found in ns::Counter!''), [])"
    using unchanged absent T by simp
  moreover have "(case def_method example_ops [] Counter ''get'' (Member_function_pointer get_count)
              ?b ?classes of
         Inl e \<Rightarrow> (Inl e, [])
       | Inr classes \<Rightarrow> call_method_with_args classes ''ns::Counter'' ''get'' [IObject 0] []) =
     (Inr \<lparr>value' = IInt 0\<rparr>, [''Counter::get''])"
    by (simp add: def_method_def register_method_def ClassRegistration_new_def
        call_method_with_args_def call_with_args_def CppFunction_of_lambda_def wrap_callable_def
        method_func_def FunctionArgs_get_def Counter_def example_ops_def example_convert_def
        invoke_member_function_def call_method_def call_method_impl_def get_count_def
        box_result_def FunctionResult_of_IValue_def)
  ultimately show ?thesis using new unchanged by simp
qed


subsection \<open>\<^verbatim>\<open>OperatorRegistry\<close>\<close>

text \<open>
  C1. \<^verbatim>\<open>execute_operator_with_args(name, K, args...)\<close>: with no registration under the
  name it throws the not-found error. With an implementation under \<open>K\<close> it calls that
  one on the arguments: its effects are the call's, its result is the call's, a
  \<^verbatim>\<open>std::exception\<close> rethrown with a prefix and any other thrown object passed on. With
  none under \<open>K\<close>, \<open>K\<close> not CPU and one under CPU, the same holds of the CPU
  implementation, called on the same arguments. With none under \<open>K\<close> and either \<open>K\<close> =
  CPU or none under CPU, it throws the no-implementation error naming the operator and
  \<open>K\<close>, and no callable has run.
\<close>

theorem execute_operator_with_args_dispatch:
  "(operators qn = None \<longrightarrow>
      execute_operator_with_args operators qn key pack s =
        (Inl (Runtime_error (''Operator '' @ qn @ '' not found!'')), s))
   \<and> (operators qn = Some op \<and> implementations op key = Some f \<longrightarrow>
      snd (execute_operator_with_args operators qn key pack s) = snd (call f pack s)
      \<and> fst (execute_operator_with_args operators qn key pack s) =
          (case fst (call f pack s) of
             Inr result \<Rightarrow> Inr result
           | Inl e \<Rightarrow>
               (case what e of
                  Some msg \<Rightarrow> Inl (Runtime_error (''Error executing operator: '' @ msg))
                | None \<Rightarrow> Inl e)))
   \<and> (operators qn = Some op \<and> implementations op key = None \<and> key \<noteq> CPU
       \<and> implementations op CPU = Some cpu \<longrightarrow>
      snd (execute_operator_with_args operators qn key pack s) = snd (call cpu pack s)
      \<and> fst (execute_operator_with_args operators qn key pack s) =
          (case fst (call cpu pack s) of
             Inr result \<Rightarrow> Inr result
           | Inl e \<Rightarrow>
               (case what e of
                  Some msg \<Rightarrow>
                    Inl (Runtime_error (''Error executing operator (CPU fallback): '' @ msg))
                | None \<Rightarrow> Inl e)))
   \<and> (operators qn = Some op \<and> implementations op key = None
       \<and> (key = CPU \<or> implementations op CPU = None) \<longrightarrow>
      execute_operator_with_args operators qn key pack s =
        (Inl (Runtime_error (''No implementation found for '' @ qn @ '' with '' @
                dispatch_key_to_string key)), s))"
  by (auto simp: execute_operator_with_args_def find_operator_def Let_def
      split: prod.splits sum.splits option.splits)

lemma add_operators_simps:
  "add_operators ''ns::add'' = Some add_registration"
  "add_operators ''ns::missing'' = None"
  "add_operators ''ns::gpu_only'' = Some \<lparr>op_qualified_name = ''ns::gpu_only'', schema = [],
        implementations = [CUDA \<mapsto> CppFunction_of_lambda (returns ''gpu_only'' INone)]\<rparr>"
  "implementations add_registration CPU = Some add_impl"
  "implementations add_registration CUDA = None"
  "implementations add_registration Undefined = None"
  by (simp_all add: add_operators_def add_registration_def)

lemma call_add_2_3:
  "call add_impl [Arith_int 2, Arith_int 3] log =
     (Inr \<lparr>value' = IInt 5\<rparr>, log @ [''add''])"
  by (simp add: call_def add_impl_def CppFunction_of_function_pointer_def wrap_callable_def invoke_function_def
      call_function_def call_function_impl_def to_tuple_impl_def FunctionArgs_get_def
      FunctionArgs_of_pack_def add_arg_def add_def example_ops_def example_convert_def
      box_result_def FunctionResult_of_IValue_def)

lemma call_add_2:
  "call add_impl [Arith_int 2] log =
     (Inl (Runtime_error ''Function call failed: Function expects 2 arguments, got 1''), log)"
  by (simp add: call_def add_impl_def CppFunction_of_function_pointer_def wrap_callable_def invoke_function_def
      call_function_def FunctionArgs_of_pack_def add_arg_def add_def to_string.simps digit_def)

lemma failing_operators_simps:
  "failing_operators ''ns::a'' = Some \<lparr>op_qualified_name = ''ns::a'', schema = [],
        implementations = [CPU \<mapsto> CppFunction_of_lambda (returns ''a/CPU'' (IInt 1)),
                           CUDA \<mapsto> CppFunction_of_lambda (throws ''a/CUDA'' ''boom'')]\<rparr>"
  "failing_operators ''ns::b'' = Some \<lparr>op_qualified_name = ''ns::b'', schema = [],
        implementations = [CPU \<mapsto> CppFunction_of_lambda (throws ''b/CPU'' ''boom'')]\<rparr>"
  "failing_operators ''ns::c'' = Some \<lparr>op_qualified_name = ''ns::c'', schema = [],
        implementations = [CPU \<mapsto> CppFunction_of_lambda (throws_object ''c/CPU'' ''42'')]\<rparr>"
  by (simp_all add: failing_operators_def)

lemma call_throws:
  "call (CppFunction_of_lambda (throws label msg)) pack log =
     (Inl (Runtime_error (''Lambda execution failed: '' @ msg)), log @ [label])"
  by (simp add: call_def CppFunction_of_lambda_def wrap_callable_def throws_def)

lemma call_throws_object:
  "call (CppFunction_of_lambda (throws_object label obj)) pack log =
     (Inl (Thrown_object obj), log @ [label])"
  by (simp add: call_def CppFunction_of_lambda_def wrap_callable_def throws_object_def)

lemma call_returns:
  "call (CppFunction_of_lambda (returns label v)) pack log = (Inr \<lparr>value' = v\<rparr>, log @ [label])"
  by (simp add: call_def CppFunction_of_lambda_def wrap_callable_def returns_def
      FunctionResult_of_IValue_def)

theorem execute_operator_with_args_witness:
  "execute_operator_with_args add_operators ''ns::add'' CPU [Arith_int 2, Arith_int 3] [] =
     (Inr \<lparr>value' = IInt 5\<rparr>, [''add''])
   \<and> execute_operator_with_args add_operators ''ns::add'' CUDA [Arith_int 2, Arith_int 3] [] =
     (Inr \<lparr>value' = IInt 5\<rparr>, [''add''])
   \<and> execute_operator_with_args add_operators ''ns::missing'' CPU [] [] =
     (Inl (Runtime_error ''Operator ns::missing not found!''), [])
   \<and> execute_operator_with_args add_operators ''ns::gpu_only'' CPU [] [] =
     (Inl (Runtime_error ''No implementation found for ns::gpu_only with CPU''), [])
   \<and> execute_operator_with_args add_operators ''ns::gpu_only'' Undefined [] [] =
     (Inl (Runtime_error ''No implementation found for ns::gpu_only with Undefined''), [])"
proof -
  note T = execute_operator_with_args_dispatch [where operators = add_operators and s = "[]"]
  let ?gpu = "\<lparr>op_qualified_name = ''ns::gpu_only'', schema = [],
        implementations = [CUDA \<mapsto> CppFunction_of_lambda (returns ''gpu_only'' INone)]\<rparr>"
  have 1: "execute_operator_with_args add_operators ''ns::add'' CPU [Arith_int 2, Arith_int 3] [] =
     (Inr \<lparr>value' = IInt 5\<rparr>, [''add''])"
    using T [where qn = "''ns::add''" and op = add_registration and key = CPU
        and pack = "[Arith_int 2, Arith_int 3]"
        and f = add_impl]
    by (simp add: add_operators_simps call_add_2_3 prod_eq_iff)
  have 2: "execute_operator_with_args add_operators ''ns::add'' CUDA [Arith_int 2, Arith_int 3] [] =
     (Inr \<lparr>value' = IInt 5\<rparr>, [''add''])"
    using T [where qn = "''ns::add''" and op = add_registration and key = CUDA
        and pack = "[Arith_int 2, Arith_int 3]"
        and cpu = add_impl]
    by (simp add: add_operators_simps call_add_2_3 prod_eq_iff)
  have 3: "execute_operator_with_args add_operators ''ns::missing'' CPU [] [] =
     (Inl (Runtime_error ''Operator ns::missing not found!''), [])"
    using T [where qn = "''ns::missing''" and key = CPU and pack = "[]"]
    by (simp add: add_operators_simps)
  have 4: "execute_operator_with_args add_operators ''ns::gpu_only'' CPU [] [] =
     (Inl (Runtime_error ''No implementation found for ns::gpu_only with CPU''), [])"
    using T [where qn = "''ns::gpu_only''" and key = CPU and pack = "[]" and op = ?gpu]
    by (simp add: add_operators_simps)
  have 5: "execute_operator_with_args add_operators ''ns::gpu_only'' Undefined [] [] =
     (Inl (Runtime_error ''No implementation found for ns::gpu_only with Undefined''), [])"
    using T [where qn = "''ns::gpu_only''" and key = Undefined and pack = "[]" and op = ?gpu]
    by (simp add: add_operators_simps)
  from 1 2 3 4 5 show ?thesis by simp
qed

text \<open>
  C3, as the code has it. \<open>ns::add\<close> has a CPU implementation only. Called with one
  argument under CUDA it does not succeed, and what it throws is not what the call
  under CPU throws.
\<close>

theorem cpu_only_counterexample:
  "execute_operator_with_args add_operators ''ns::add'' CUDA [Arith_int 2] [] =
     (Inl (Runtime_error
        ''Error executing operator (CPU fallback): Function call failed: Function expects 2 arguments, got 1''),
      [])
   \<and> execute_operator_with_args add_operators ''ns::add'' CPU [Arith_int 2] [] =
     (Inl (Runtime_error
        ''Error executing operator: Function call failed: Function expects 2 arguments, got 1''),
      [])"
  by (simp add: execute_operator_with_args_def find_operator_def add_operators_simps call_add_2)

text \<open>
  C3, amended. For an operator with an implementation under CPU only and any other
  key \<open>K\<close>, the call under \<open>K\<close> runs the CPU implementation on the same arguments.
  When that returns, both the call under \<open>K\<close> and the call under CPU return its
  result. When it throws a \<^verbatim>\<open>std::exception\<close>, both throw a \<^verbatim>\<open>std::runtime_error\<close>, the
  first with the fallback prefix and the second with the plain prefix before the
  implementation's message. When it throws any other object, both calls end with
  that object.
\<close>

theorem cpu_only_fallback:
  "operators qn = Some op \<and> implementations op = [CPU \<mapsto> cpu] \<and> key \<noteq> CPU \<longrightarrow>
     (call cpu pack s = (Inr result, s') \<longrightarrow>
        execute_operator_with_args operators qn key pack s = (Inr result, s')
        \<and> execute_operator_with_args operators qn CPU pack s = (Inr result, s'))
     \<and> (call cpu pack s = (Inl e, s') \<and> what e = Some msg \<longrightarrow>
        execute_operator_with_args operators qn key pack s =
          (Inl (Runtime_error (''Error executing operator (CPU fallback): '' @ msg)), s')
        \<and> execute_operator_with_args operators qn CPU pack s =
          (Inl (Runtime_error (''Error executing operator: '' @ msg)), s'))
     \<and> (call cpu pack s = (Inl e, s') \<and> what e = None \<longrightarrow>
        execute_operator_with_args operators qn key pack s = (Inl e, s')
        \<and> execute_operator_with_args operators qn CPU pack s = (Inl e, s'))"
  by (auto simp: execute_operator_with_args_def find_operator_def Let_def)

theorem cpu_only_fallback_witness:
  "execute_operator_with_args add_operators ''ns::add'' CUDA [Arith_int 2, Arith_int 3] [] =
     (Inr \<lparr>value' = IInt 5\<rparr>, [''add''])
   \<and> execute_operator_with_args add_operators ''ns::add'' CPU [Arith_int 2, Arith_int 3] [] =
     (Inr \<lparr>value' = IInt 5\<rparr>, [''add''])
   \<and> execute_operator_with_args add_operators ''ns::add'' Undefined [Arith_int 2] [] =
     (Inl (Runtime_error
        ''Error executing operator (CPU fallback): Function call failed: Function expects 2 arguments, got 1''),
      [])
   \<and> execute_operator_with_args add_operators ''ns::add'' CPU [Arith_int 2] [] =
     (Inl (Runtime_error
        ''Error executing operator: Function call failed: Function expects 2 arguments, got 1''),
      [])
   \<and> execute_operator_with_args failing_operators ''ns::c'' CUDA [] [] =
     (Inl (Thrown_object ''42''), [''c/CPU''])
   \<and> execute_operator_with_args failing_operators ''ns::c'' CPU [] [] =
     (Inl (Thrown_object ''42''), [''c/CPU''])"
  using cpu_only_fallback [where operators = add_operators and qn = "''ns::add''"
      and op = add_registration and cpu = add_impl
      and key = CUDA and pack = "[Arith_int 2, Arith_int 3]" and s = "[]"
      and result = "\<lparr>value' = IInt 5\<rparr>" and s' = "[''add'']"]
    cpu_only_fallback [where operators = add_operators and qn = "''ns::add''"
      and op = add_registration and cpu = add_impl
      and key = Undefined and pack = "[Arith_int 2]" and s = "[]"
      and e = "Runtime_error ''Function call failed: Function expects 2 arguments, got 1''"
      and msg = "''Function call failed: Function expects 2 arguments, got 1''"
      and s' = "[]"]
    cpu_only_fallback [where operators = failing_operators and qn = "''ns::c''"
      and op = "\<lparr>op_qualified_name = ''ns::c'', schema = [],
        implementations = [CPU \<mapsto> CppFunction_of_lambda (throws_object ''c/CPU'' ''42'')]\<rparr>"
      and cpu = "CppFunction_of_lambda (throws_object ''c/CPU'' ''42'')"
      and key = CUDA and pack = "[]" and s = "[]" and e = "Thrown_object ''42''"
      and s' = "[''c/CPU'']"]
  by (simp add: add_operators_simps(1) add_registration_def call_add_2_3 call_add_2
      failing_operators_simps call_throws_object)

text \<open>
  C4, as the code has it. Two different operators, called under two different keys,
  fail with the very same exception: its message names neither the operator nor the
  key.
\<close>

theorem failure_context_counterexample:
  "fst (execute_operator_with_args failing_operators ''ns::a'' CUDA [] []) =
     Inl (Runtime_error ''Error executing operator: Lambda execution failed: boom'')
   \<and> fst (execute_operator_with_args failing_operators ''ns::b'' CPU [] []) =
     Inl (Runtime_error ''Error executing operator: Lambda execution failed: boom'')"
  by (simp add: execute_operator_with_args_def find_operator_def failing_operators_simps
      call_throws)

text \<open>
  C4, amended. When the implementation that \<^verbatim>\<open>execute_operator_with_args\<close> calls throws,
  the call throws, in the state the implementation left. A \<^verbatim>\<open>std::exception\<close> reaches
  the caller as a \<^verbatim>\<open>std::runtime_error\<close> whose message is a fixed prefix followed by the
  message of the implementation's exception; the prefix tells a direct call from a
  CPU fallback and nothing more. Any other thrown object reaches the caller as it is.
\<close>

theorem operator_failure_rewrapped:
  "(operators qn = Some op \<and> implementations op key = Some f
      \<and> call f pack s = (Inl e, s') \<longrightarrow>
      execute_operator_with_args operators qn key pack s =
        (Inl (case what e of
                Some msg \<Rightarrow> Runtime_error (''Error executing operator: '' @ msg)
              | None \<Rightarrow> e), s'))
   \<and> (operators qn = Some op \<and> implementations op key = None \<and> key \<noteq> CPU
      \<and> implementations op CPU = Some cpu \<and> call cpu pack s = (Inl e, s') \<longrightarrow>
      execute_operator_with_args operators qn key pack s =
        (Inl (case what e of
                Some msg \<Rightarrow> Runtime_error (''Error executing operator (CPU fallback): '' @ msg)
              | None \<Rightarrow> e), s'))"
  by (simp add: execute_operator_with_args_def find_operator_def split: option.splits)

theorem operator_failure_witness:
  "execute_operator_with_args failing_operators ''ns::a'' CUDA [] [] =
     (Inl (Runtime_error ''Error executing operator: Lambda execution failed: boom''), [''a/CUDA''])
   \<and> execute_operator_with_args failing_operators ''ns::b'' CUDA [] [] =
     (Inl (Runtime_error ''Error executing operator (CPU fallback): Lambda execution failed: boom''),
      [''b/CPU''])
   \<and> execute_operator_with_args failing_operators ''ns::c'' CPU [] [] =
     (Inl (Thrown_object ''42''), [''c/CPU''])
   \<and> execute_operator_with_args failing_operators ''ns::c'' CUDA [] [] =
     (Inl (Thrown_object ''42''), [''c/CPU''])"
  using operator_failure_rewrapped [where operators = failing_operators and qn = "''ns::a''"
      and op = "\<lparr>op_qualified_name = ''ns::a'', schema = [],
        implementations = [CPU \<mapsto> CppFunction_of_lambda (returns ''a/CPU'' (IInt 1)),
                           CUDA \<mapsto> CppFunction_of_lambda (throws ''a/CUDA'' ''boom'')]\<rparr>"
      and key = CUDA and f = "CppFunction_of_lambda (throws ''a/CUDA'' ''boom'')"
      and pack = "[]" and s = "[]" and s' = "[''a/CUDA'']"
      and e = "Runtime_error ''Lambda execution failed: boom''"]
    operator_failure_rewrapped [where operators = failing_operators and qn = "''ns::b''"
      and op = "\<lparr>op_qualified_name = ''ns::b'', schema = [],
        implementations = [CPU \<mapsto> CppFunction_of_lambda (throws ''b/CPU'' ''boom'')]\<rparr>"
      and key = CUDA and cpu = "CppFunction_of_lambda (throws ''b/CPU'' ''boom'')"
      and pack = "[]" and s = "[]" and s' = "[''b/CPU'']"
      and e = "Runtime_error ''Lambda execution failed: boom''"]
    operator_failure_rewrapped [where operators = failing_operators and qn = "''ns::c''"
      and op = "\<lparr>op_qualified_name = ''ns::c'', schema = [],
        implementations = [CPU \<mapsto> CppFunction_of_lambda (throws_object ''c/CPU'' ''42'')]\<rparr>"
      and key = CPU and f = "CppFunction_of_lambda (throws_object ''c/CPU'' ''42'')"
      and pack = "[]" and s = "[]" and s' = "[''c/CPU'']" and e = "Thrown_object ''42''"]
    operator_failure_rewrapped [where operators = failing_operators and qn = "''ns::c''"
      and op = "\<lparr>op_qualified_name = ''ns::c'', schema = [],
        implementations = [CPU \<mapsto> CppFunction_of_lambda (throws_object ''c/CPU'' ''42'')]\<rparr>"
      and key = CUDA and cpu = "CppFunction_of_lambda (throws_object ''c/CPU'' ''42'')"
      and pack = "[]" and s = "[]" and s' = "[''c/CPU'']" and e = "Thrown_object ''42''"]
  by (simp add: failing_operators_simps call_throws call_throws_object)

text \<open>
  C9. When an implementation is registered under the requested key and calling it
  throws, \<^verbatim>\<open>execute_operator_with_args\<close> throws (a \<^verbatim>\<open>std::exception\<close> rethrown with the
  plain prefix, any other object as it is) and \<^verbatim>\<open>execute_operator\<close> returns \<^verbatim>\<open>false\<close>
  (or ends with the object that is no \<^verbatim>\<open>std::exception\<close>), in the state that one call
  left. Whenever an implementation is registered under a requested key other than
  CPU, neither function depends on what is registered under CPU, if anything.
\<close>

theorem no_fallback_after_failure:
  "operators qn = Some op \<and> implementations op key = Some f \<longrightarrow>
     (call f pack s = (Inl e, s') \<longrightarrow>
        execute_operator_with_args operators qn key pack s =
          (Inl (case what e of
                  Some msg \<Rightarrow> Runtime_error (''Error executing operator: '' @ msg)
                | None \<Rightarrow> e), s'))
     \<and> (call f [] s = (Inl e, s') \<longrightarrow>
        execute_operator operators qn key s =
          ((case what e of Some msg \<Rightarrow> Inr False | None \<Rightarrow> Inl e), s'))
     \<and> (key \<noteq> CPU \<longrightarrow>
        execute_operator_with_args
          (operators(qn \<mapsto> op\<lparr>implementations := (implementations op)(CPU := cpu')\<rparr>)) qn key pack s =
        execute_operator_with_args operators qn key pack s
        \<and> execute_operator
          (operators(qn \<mapsto> op\<lparr>implementations := (implementations op)(CPU := cpu')\<rparr>)) qn key s =
        execute_operator operators qn key s)"
  by (simp add: execute_operator_with_args_def execute_operator_def find_operator_def
      split: option.splits)

theorem no_fallback_witness:
  "execute_operator_with_args failing_operators ''ns::a'' CUDA [] [] =
     (Inl (Runtime_error ''Error executing operator: Lambda execution failed: boom''), [''a/CUDA''])
   \<and> execute_operator failing_operators ''ns::a'' CUDA [] = (Inr False, [''a/CUDA''])
   \<and> execute_operator_with_args failing_operators ''ns::a'' CPU [] [] =
     (Inr \<lparr>value' = IInt 1\<rparr>, [''a/CPU''])
   \<and> execute_operator failing_operators ''ns::a'' CPU [] = (Inr True, [''a/CPU''])
   \<and> execute_operator failing_operators ''ns::c'' CPU [] = (Inl (Thrown_object ''42''), [''c/CPU''])"
proof -
  have "execute_operator_with_args failing_operators ''ns::a'' CUDA [] [] =
     (Inl (Runtime_error ''Error executing operator: Lambda execution failed: boom''), [''a/CUDA''])
   \<and> execute_operator failing_operators ''ns::a'' CUDA [] = (Inr False, [''a/CUDA''])"
    using no_fallback_after_failure [where operators = failing_operators and qn = "''ns::a''"
      and op = "\<lparr>op_qualified_name = ''ns::a'', schema = [],
        implementations = [CPU \<mapsto> CppFunction_of_lambda (returns ''a/CPU'' (IInt 1)),
                           CUDA \<mapsto> CppFunction_of_lambda (throws ''a/CUDA'' ''boom'')]\<rparr>"
      and key = CUDA and f = "CppFunction_of_lambda (throws ''a/CUDA'' ''boom'')"
      and pack = "[]" and s = "[]" and s' = "[''a/CUDA'']"
      and e = "Runtime_error ''Lambda execution failed: boom''"]
    by (simp add: failing_operators_simps call_throws)
  moreover have "execute_operator_with_args failing_operators ''ns::a'' CPU [] [] =
     (Inr \<lparr>value' = IInt 1\<rparr>, [''a/CPU''])
   \<and> execute_operator failing_operators ''ns::a'' CPU [] = (Inr True, [''a/CPU''])"
    by (simp add: execute_operator_with_args_def execute_operator_def find_operator_def
        failing_operators_simps call_returns)
  moreover have "execute_operator failing_operators ''ns::c'' CPU [] =
     (Inl (Thrown_object ''42''), [''c/CPU''])"
    using no_fallback_after_failure [where operators = failing_operators and qn = "''ns::c''"
      and op = "\<lparr>op_qualified_name = ''ns::c'', schema = [],
        implementations = [CPU \<mapsto> CppFunction_of_lambda (throws_object ''c/CPU'' ''42'')]\<rparr>"
      and key = CPU and f = "CppFunction_of_lambda (throws_object ''c/CPU'' ''42'')"
      and pack = "[]" and s = "[]" and s' = "[''c/CPU'']" and e = "Thrown_object ''42''"]
    by (simp add: failing_operators_simps call_throws_object)
  ultimately show ?thesis by simp
qed

end
